theory Spec2Isabelle
  imports Complex_Main "HOL-Library.Word"
begin

section \<open>JavaScript values and strings\<close>

text \<open>
  The values that cross the interfaces of the security core are strings, numbers,
  booleans, \<^verbatim>\<open>null\<close>, \<^verbatim>\<open>undefined\<close>, arrays and plain objects. A plain object is the list
  of its own enumerable entries in the order \<^verbatim>\<open>Object.entries\<close> enumerates them (keys are
  pairwise distinct); an array is the list of its elements. Finite numbers are read as
  the exact rationals they denote. Strings are lists of characters; the case mapping
  below covers the ASCII letters.
\<close>

datatype jsval =
    JUndefined
  | JNull
  | JBool bool
  | JNum rat
  | JStr string
  | JArr "jsval list"
  | JObj "(string \<times> jsval) list"

definition toLowerChar :: "char \<Rightarrow> char" where
  "toLowerChar c =
     (case map_of (zip ''ABCDEFGHIJKLMNOPQRSTUVWXYZ'' ''abcdefghijklmnopqrstuvwxyz'') c of
        Some l \<Rightarrow> l
      | None \<Rightarrow> c)"

definition toLowerCase :: "string \<Rightarrow> string" where
  "toLowerCase s = map toLowerChar s"

definition endsWith :: "string \<Rightarrow> string \<Rightarrow> bool" where
  "endsWith s suffix =
     (length suffix \<le> length s \<and> drop (length s - length suffix) s = suffix)"

text \<open>Decimal numerals, as the keys of an array's entries (\<^verbatim>\<open>"0"\<close>, \<^verbatim>\<open>"1"\<close>, ...).\<close>

definition digit :: "nat \<Rightarrow> char" where
  "digit d = ''0123456789'' ! d"

fun string_of_nat :: "nat \<Rightarrow> string" where
  "string_of_nat n =
     (if n < 10 then [digit n] else string_of_nat (n div 10) @ [digit (n mod 10)])"

declare string_of_nat.simps [simp del]

text \<open>\<^verbatim>\<open>Object.entries\<close> of an array: its elements under their indices.\<close>

definition arrayEntries :: "jsval list \<Rightarrow> (string \<times> jsval) list" where
  "arrayEntries elems = zip (map string_of_nat [0 ..< length elems]) elems"

text \<open>
  Reading a value: \<open>get_prop v k\<close> is the own enumerable property \<open>k\<close> of an object or an
  array, and \<open>lookup_path\<close> follows a list of property names from the outside in. A value
  with \<^verbatim>\<open>typeof v === 'object'\<close> other than \<^verbatim>\<open>null\<close> is an object or an array.
\<close>

fun get_prop :: "jsval \<Rightarrow> string \<Rightarrow> jsval option" where
  "get_prop (JObj entries) k = map_of entries k"
| "get_prop (JArr elems) k = map_of (arrayEntries elems) k"
| "get_prop v k = None"

fun lookup_path :: "string list \<Rightarrow> jsval \<Rightarrow> jsval option" where
  "lookup_path [] v = Some v"
| "lookup_path (k # path) v =
     (case get_prop v k of None \<Rightarrow> None | Some w \<Rightarrow> lookup_path path w)"

definition is_object :: "jsval \<Rightarrow> bool" where
  "is_object v = (case v of JObj entries \<Rightarrow> True | JArr elems \<Rightarrow> True | _ \<Rightarrow> False)"

text \<open>\<^verbatim>\<open>str.replace(/c/g, rep)\<close> for a one-character pattern: every occurrence, left to right.\<close>

definition replace_g :: "char \<Rightarrow> string \<Rightarrow> string \<Rightarrow> string" where
  "replace_g c rep str = concat (map (\<lambda>x. if x = c then rep else [x]) str)"


section \<open>XSSProtection (src/unnamed/part_000)\<close>

text \<open>
  \<^verbatim>\<open>sanitize\<close>, lines 14-25: seven global replacements applied in the order of the source.
  The second and the third replace \<^verbatim>\<open><\<close> by \<^verbatim>\<open>'<'\<close> and \<^verbatim>\<open>>\<close> by \<^verbatim>\<open>'>'\<close>, as the file has them.
  The quotation mark is character 0x22, the apostrophe 0x27, the backslash 0x5C.
\<close>

definition sanitize_str :: "string \<Rightarrow> string" where
  "sanitize_str str =
     replace_g (CHR 0x5C) ''&#x5C;''
       (replace_g (CHR ''/'') ''&#x2F;''
         (replace_g (CHR 0x27) ''&#039;''
           (replace_g (CHR 0x22) ''&quot;''
             (replace_g (CHR ''>'') ''>''
               (replace_g (CHR ''<'') ''<''
                 (replace_g (CHR ''&'') ''&amp;'' str))))))"

text \<open>\<^verbatim>\<open>if (typeof str !== 'string') return str;\<close> comes first.\<close>

fun sanitize :: "jsval \<Rightarrow> jsval" where
  "sanitize (JStr str) = JStr (sanitize_str str)"
| "sanitize v = v"

text \<open>
  The DOM as \<^verbatim>\<open>safeInsertHtml\<close> sees it: text nodes, elements (tag name, attributes,
  children) and the other node kinds of a parsed fragment (comments), which have no
  \<^verbatim>\<open>tagName\<close>.
\<close>

datatype node =
    TextNode string
  | ElementNode string "(string \<times> string) list" "node list"
  | CommentNode string

definition allowedTags :: "string list" where
  "allowedTags = [''b'', ''strong'', ''i'', ''em'', ''br'', ''span'', ''small'', ''sup'', ''sub'']"

text \<open>
  The attribute loop of lines 50-54: only \<^verbatim>\<open>class\<close> and \<^verbatim>\<open>style\<close> are copied, their values
  through \<^verbatim>\<open>sanitize\<close>.
\<close>

fun copySafeAttributes :: "(string \<times> string) list \<Rightarrow> (string \<times> string) list" where
  "copySafeAttributes [] = []"
| "copySafeAttributes ((name, v) # attrs) =
     (if name \<in> set [''class'', ''style'']
      then (name, sanitize_str v) # copySafeAttributes attrs
      else copySafeAttributes attrs)"

text \<open>
  The body of the \<^verbatim>\<open>forEach\<close> over \<^verbatim>\<open>tempDiv.childNodes\<close>, lines 44-58. It visits the top-level
  nodes only. A text node is copied; an element with an allowed tag is rebuilt with its
  safe attributes and \<^verbatim>\<open>safeNode.innerHTML = node.innerHTML\<close>, which gives the new element
  the children of the old one as they are; any other element is left out. A node
  without \<^verbatim>\<open>tagName\<close> makes \<^verbatim>\<open>node.tagName.toLowerCase()\<close> throw a TypeError: \<open>None\<close>.
\<close>

fun rebuildNode :: "node \<Rightarrow> node list option" where
  "rebuildNode (TextNode t) = Some [TextNode t]"
| "rebuildNode (ElementNode tagName attributes childNodes) =
     (if toLowerCase tagName \<in> set allowedTags
      then Some [ElementNode tagName (copySafeAttributes attributes) childNodes]
      else Some [])"
| "rebuildNode (CommentNode c) = None"

fun rebuildFragment :: "node list \<Rightarrow> node list option" where
  "rebuildFragment [] = Some []"
| "rebuildFragment (n # ns) =
     (case rebuildNode n of
        None \<Rightarrow> None
      | Some xs \<Rightarrow> (case rebuildFragment ns of None \<Rightarrow> None | Some ys \<Rightarrow> Some (xs @ ys)))"

text \<open>
  \<^verbatim>\<open>safeInsertHtml(element, html)\<close>, lines 32-61, gives the new children of \<^verbatim>\<open>element\<close>. The
  browser's HTML parser (\<^verbatim>\<open>tempDiv.innerHTML = safeHtml\<close>) is the parameter \<open>innerHTML\<close>.
  The element is emptied first and the fragment is appended after the loop, so when the
  loop throws the element stays empty; the second component says whether it threw.
\<close>

definition safeInsertHtml :: "(string \<Rightarrow> node list) \<Rightarrow> string \<Rightarrow> node list \<times> bool" where
  "safeInsertHtml innerHTML html =
     (let safeHtml = sanitize_str html;
          tempDiv = innerHTML safeHtml
      in case rebuildFragment tempDiv of
           None \<Rightarrow> ([], True)
         | Some fragment \<Rightarrow> (fragment, False))"

text \<open>Every element of a subtree, at any depth, with its attributes.\<close>

fun elements_of :: "node \<Rightarrow> (string \<times> (string \<times> string) list) list"
  and elements_of_list :: "node list \<Rightarrow> (string \<times> (string \<times> string) list) list" where
  "elements_of (TextNode t) = []"
| "elements_of (CommentNode c) = []"
| "elements_of (ElementNode tagName attributes childNodes) =
     (tagName, attributes) # elements_of_list childNodes"
| "elements_of_list [] = []"
| "elements_of_list (n # ns) = elements_of n @ elements_of_list ns"


section \<open>ModuleSandbox (src/assets/js/core/sandbox.js)\<close>

definition pollutionKeys :: "string list" where
  "pollutionKeys = [''__proto__'', ''constructor'', ''prototype'']"

text \<open>
  \<^verbatim>\<open>sanitizeSandboxData\<close>, lines 116-134. A string goes through \<^verbatim>\<open>XSSProtection.sanitize\<close>.
  Anything with \<^verbatim>\<open>typeof data === 'object'\<close> that is not \<^verbatim>\<open>null\<close>, so a plain object and an
  array alike, is rebuilt as a fresh plain object \<^verbatim>\<open>{}\<close> from its \<^verbatim>\<open>Object.entries\<close>: the
  entries of an array are its elements under the keys \<^verbatim>\<open>"0"\<close>, \<^verbatim>\<open>"1"\<close>, ... All other values
  are returned as they are.
\<close>

fun sanitizeSandboxData :: "jsval \<Rightarrow> jsval"
  and sanitizeEntries :: "(string \<times> jsval) list \<Rightarrow> (string \<times> jsval) list"
  and sanitizeElements :: "nat \<Rightarrow> jsval list \<Rightarrow> (string \<times> jsval) list" where
  "sanitizeSandboxData (JStr s) = sanitize (JStr s)"
| "sanitizeSandboxData (JObj entries) = JObj (sanitizeEntries entries)"
| "sanitizeSandboxData (JArr elems) = JObj (sanitizeElements 0 elems)"
| "sanitizeSandboxData v = v"
| "sanitizeEntries [] = []"
| "sanitizeEntries ((key, v) # rest) =
     (if key \<in> set pollutionKeys then sanitizeEntries rest
      else (key, sanitizeSandboxData v) # sanitizeEntries rest)"
| "sanitizeElements i [] = []"
| "sanitizeElements i (v # rest) =
     (if string_of_nat i \<in> set pollutionKeys then sanitizeElements (Suc i) rest
      else (string_of_nat i, sanitizeSandboxData v) # sanitizeElements (Suc i) rest)"

text \<open>
  \<^verbatim>\<open>handleMessage\<close>, lines 90-110, for a same-origin \<^verbatim>\<open>SANDBOX_MESSAGE\<close>: the custom event
  dispatched to the host, as its name and its \<^verbatim>\<open>detail\<close>.
\<close>

definition handleSandboxMessage :: "string \<Rightarrow> jsval \<Rightarrow> string \<times> jsval" where
  "handleSandboxMessage moduleId payload =
     (''sandbox-message-'' @ moduleId, sanitizeSandboxData payload)"

text \<open>Observations on a value: its keys, its string values and its arrays, at any depth.\<close>

fun keys_of :: "jsval \<Rightarrow> string set"
  and keys_of_entries :: "(string \<times> jsval) list \<Rightarrow> string set"
  and keys_of_elements :: "jsval list \<Rightarrow> string set" where
  "keys_of (JObj entries) = keys_of_entries entries"
| "keys_of (JArr elems) = keys_of_elements elems"
| "keys_of v = {}"
| "keys_of_entries [] = {}"
| "keys_of_entries ((key, v) # rest) = insert key (keys_of v \<union> keys_of_entries rest)"
| "keys_of_elements [] = {}"
| "keys_of_elements (v # rest) = keys_of v \<union> keys_of_elements rest"

fun strings_of :: "jsval \<Rightarrow> string set"
  and strings_of_entries :: "(string \<times> jsval) list \<Rightarrow> string set"
  and strings_of_elements :: "jsval list \<Rightarrow> string set" where
  "strings_of (JStr s) = {s}"
| "strings_of (JObj entries) = strings_of_entries entries"
| "strings_of (JArr elems) = strings_of_elements elems"
| "strings_of v = {}"
| "strings_of_entries [] = {}"
| "strings_of_entries ((key, v) # rest) = strings_of v \<union> strings_of_entries rest"
| "strings_of_elements [] = {}"
| "strings_of_elements (v # rest) = strings_of v \<union> strings_of_elements rest"

fun has_array :: "jsval \<Rightarrow> bool"
  and has_array_entries :: "(string \<times> jsval) list \<Rightarrow> bool" where
  "has_array (JArr elems) = True"
| "has_array (JObj entries) = has_array_entries entries"
| "has_array v = False"
| "has_array_entries [] = False"
| "has_array_entries ((key, v) # rest) = (has_array v \<or> has_array_entries rest)"


text \<open>A sample payload: a string, a dropped key, an array and a number.\<close>

definition demo_payload :: jsval where
  "demo_payload =
     JObj [(''msg'', JStr ''a/b''),
           (''__proto__'', JObj [(''x'', JNum 1)]),
           (''list'', JArr [JStr ''/'', JNum 2]),
           (''n'', JNum 3)]"


section \<open>SecurityCore (src/assets/js/core/security.js)\<close>

text \<open>
  \<^verbatim>\<open>parseFloat(value.toFixed(2))\<close> on a finite number, read exactly: \<^verbatim>\<open>toFixed(2)\<close> prints the
  integer \<open>n\<close> for which \<open>n / 100\<close> is closest to the magnitude (the larger \<open>n\<close> on a tie)
  behind the sign, and prints a number of magnitude \<open>10^21\<close> or more as it is. The
  rounding of the parsed decimal to the nearest double is not part of this model.
\<close>

definition parseFloat_toFixed2 :: "rat \<Rightarrow> rat" where
  "parseFloat_toFixed2 x =
     (if 10 ^ 21 \<le> \<bar>x\<bar> then x
      else sgn x * (of_int \<lfloor>\<bar>x\<bar> * 100 + 1 / 2\<rfloor> / 100))"

definition sensitiveDetails :: "string list" where
  "sensitiveDetails = [''route'', ''eph'', ''password'']"

text \<open>\<^verbatim>\<open>_sanitizeDetails\<close>, lines 81-101, over the entries of the \<^verbatim>\<open>details\<close> object.\<close>

fun sanitizeDetails :: "(string \<times> jsval) list \<Rightarrow> (string \<times> jsval) list" where
  "sanitizeDetails [] = []"
| "sanitizeDetails ((key, v) # rest) =
     (if toLowerCase key \<in> set sensitiveDetails then sanitizeDetails rest
      else (key,
            (case v of
               JNum x \<Rightarrow> JNum (parseFloat_toFixed2 x)
             | JStr s \<Rightarrow> sanitize (JStr s)
             | _ \<Rightarrow> v)) # sanitizeDetails rest)"

text \<open>
  \<^verbatim>\<open>logSecurityEvent\<close>, lines 53-57: the arguments of \<^verbatim>\<open>this.logger.log\<close>, that is, what the
  logging sink receives.
\<close>

definition logSecurityEvent :: "string \<Rightarrow> (string \<times> jsval) list \<Rightarrow> string \<times> (string \<times> jsval) list" where
  "logSecurityEvent eventType details = (eventType, sanitizeDetails details)"

text \<open>\<^verbatim>\<open>typeof value === 'number'\<close> and \<^verbatim>\<open>typeof value === 'string'\<close>.\<close>

definition is_number :: "jsval \<Rightarrow> bool" where
  "is_number v = (case v of JNum x \<Rightarrow> True | _ \<Rightarrow> False)"

definition is_string :: "jsval \<Rightarrow> bool" where
  "is_string v = (case v of JStr s \<Rightarrow> True | _ \<Rightarrow> False)"


section \<open>ThreatMonitor (src/assets/js/core/threat-monitor.js)\<close>

text \<open>
  A recorded event (lines 91-96); the fields carry the prefix \<open>ev_\<close>. The monitor's state
  is the fields the constructor sets (lines 12-17), with \<^verbatim>\<open>blockedIps\<close> as a map. What the
  monitor does to the page and to the logger is kept as a list of effects, oldest first:
  \<^verbatim>\<open>_showWarning\<close> rendering the banner, \<^verbatim>\<open>_blockAccess\<close> rendering the block page (with
  \<^verbatim>\<open>blockUntil\<close>), and the arguments the logging sink receives.
\<close>

record event =
  ev_timestamp :: int
  ev_type :: string
  ev_details :: jsval
  ev_riskLevel :: int

datatype effect =
    ShowWarning
  | BlockAccess int
  | LogSink string "(string \<times> jsval) list"

record ThreatMonitor =
  eventHistory :: "event list"
  suspiciousThreshold :: int
  blockThreshold :: int
  blockDuration :: int
  blockedIps :: "string \<rightharpoonup> int"
  warningShown :: bool
  effects :: "effect list"

definition new_ThreatMonitor :: ThreatMonitor where
  "new_ThreatMonitor =
     \<lparr> eventHistory = [], suspiciousThreshold = 3, blockThreshold = 5,
       blockDuration = 300000, blockedIps = Map.empty, warningShown = False,
       effects = [] \<rparr>"

text \<open>
  \<^verbatim>\<open>_calculateRiskLevel\<close>, lines 189-201: \<^verbatim>\<open>riskLevels[type] || 1\<close>. Every weight of the table is
  non-zero, so the default applies to the types the table does not list. (Type names
  that an object literal inherits, such as \<^verbatim>\<open>constructor\<close>, are not event types.)
\<close>

definition riskLevels :: "(string \<times> int) list" where
  "riskLevels =
     [(''CROSS_ORIGIN_MESSAGE'', 2),
      (''DEVELOPER_TOOLS_ATTEMPT'', 1),
      (''RAPID_KEYSTROKES'', 3),
      (''POSSIBLE_XSS_SCAN'', 5),
      (''MODULE_LOAD_FAILED'', 2),
      (''INVALID_GPX'', 1),
      (''TRANSLATION_FAILED'', 1)]"

definition calculateRiskLevel :: "string \<Rightarrow> int" where
  "calculateRiskLevel type = (case map_of riskLevels type of Some l \<Rightarrow> l | None \<Rightarrow> 1)"

text \<open>
  \<^verbatim>\<open>_sanitizeEventData\<close>, lines 206-225. A value that is not an object, and \<^verbatim>\<open>null\<close>, is
  returned as it is. Otherwise the entries are copied into a fresh object, without
  recursion: an entry named \<^verbatim>\<open>password\<close>, \<^verbatim>\<open>token\<close> or \<^verbatim>\<open>cookie\<close> in any letter case is
  skipped, a string longer than 200 is cut to its first 200 characters followed by
  \<^verbatim>\<open>...\<close>.
\<close>

definition piiKeys :: "string list" where
  "piiKeys = [''password'', ''token'', ''cookie'']"

fun scrubEventEntries :: "(string \<times> jsval) list \<Rightarrow> (string \<times> jsval) list" where
  "scrubEventEntries [] = []"
| "scrubEventEntries ((key, v) # rest) =
     (if toLowerCase key \<in> set piiKeys then scrubEventEntries rest
      else (key,
            (case v of
               JStr s \<Rightarrow> (if length s > 200 then JStr (take 200 s @ ''...'') else v)
             | _ \<Rightarrow> v)) # scrubEventEntries rest)"

fun sanitizeEventData :: "jsval \<Rightarrow> jsval" where
  "sanitizeEventData (JObj entries) = JObj (scrubEventEntries entries)"
| "sanitizeEventData (JArr elems) = JObj (scrubEventEntries (arrayEntries elems))"
| "sanitizeEventData v = v"

text \<open>
  \<^verbatim>\<open>_showWarning\<close>, lines 140-157, and \<^verbatim>\<open>_blockAccess\<close>, lines 162-184, with the reading of
  \<^verbatim>\<open>Date.now()\<close> that \<^verbatim>\<open>_blockAccess\<close> takes. The timer that lifts the block later is not
  part of the call.
\<close>

definition showWarning :: "ThreatMonitor \<Rightarrow> ThreatMonitor" where
  "showWarning tm =
     (if warningShown tm then tm
      else tm\<lparr> warningShown := True, effects := effects tm @ [ShowWarning] \<rparr>)"

definition getClientIp :: string where
  "getClientIp = ''client-ip-placeholder''"

definition blockAccess :: "int \<Rightarrow> ThreatMonitor \<Rightarrow> ThreatMonitor" where
  "blockAccess now tm =
     (let ip = getClientIp;
          blockUntil = now + blockDuration tm
      in tm\<lparr> blockedIps := (blockedIps tm)(ip \<mapsto> blockUntil),
              effects := effects tm @ [BlockAccess blockUntil] \<rparr>)"

text \<open>
  \<^verbatim>\<open>_checkThreatLevel\<close>, lines 115-135: the sum of the weights of the events less than
  60000 ms old at the reading \<open>now\<close> of the clock, then the two threshold tests.
\<close>

definition riskScore :: "int \<Rightarrow> event list \<Rightarrow> int" where
  "riskScore now history =
     foldl (\<lambda>sum e. sum + ev_riskLevel e) 0
       (filter (\<lambda>e. now - ev_timestamp e < 60000) history)"

definition checkThreatLevel :: "int \<Rightarrow> int \<Rightarrow> ThreatMonitor \<Rightarrow> ThreatMonitor" where
  "checkThreatLevel now nowBlock tm =
     (let score = riskScore now (eventHistory tm);
          tm1 = (if score \<ge> suspiciousThreshold tm \<and> score < blockThreshold tm
                 then showWarning tm else tm)
      in if score \<ge> blockThreshold tm then blockAccess nowBlock tm1 else tm1)"

text \<open>
  \<^verbatim>\<open>recordEvent(type, details)\<close>, lines 90-110, with the three readings of \<^verbatim>\<open>Date.now()\<close> the
  call takes: for the event's timestamp, in \<^verbatim>\<open>_checkThreatLevel\<close> and in \<^verbatim>\<open>_blockAccess\<close>.
  \<open>details\<close> is the entry list of the object the caller passes. The event keeps the
  scrubbed details; the last statement hands \<^verbatim>\<open>type\<close> and the parameter \<^verbatim>\<open>details\<close> to
  \<^verbatim>\<open>window.security.logSecurityEvent\<close>, whose call of the logger is the effect recorded.
\<close>

definition recordEvent ::
  "int \<Rightarrow> int \<Rightarrow> int \<Rightarrow> string \<Rightarrow> (string \<times> jsval) list \<Rightarrow> ThreatMonitor \<Rightarrow> ThreatMonitor" where
  "recordEvent nowEvent nowCheck nowBlock type details tm =
     (let event = \<lparr> ev_timestamp = nowEvent, ev_type = type,
                     ev_details = sanitizeEventData (JObj details),
                     ev_riskLevel = calculateRiskLevel type \<rparr>;
          pushed = eventHistory tm @ [event];
          history = (if length pushed > 100 then tl pushed else pushed);
          tm1 = checkThreatLevel nowCheck nowBlock (tm\<lparr> eventHistory := history \<rparr>);
          logged = logSecurityEvent type details
      in tm1\<lparr> effects := effects tm1 @ [LogSink (fst logged) (snd logged)] \<rparr>)"

text \<open>How often the block path ran.\<close>

fun is_block :: "effect \<Rightarrow> bool" where
  "is_block (BlockAccess u) = True"
| "is_block e = False"

definition blockCount :: "ThreatMonitor \<Rightarrow> nat" where
  "blockCount tm = length (filter is_block (effects tm))"


section \<open>GPXParser (src/unnamed/part_001)\<close>

text \<open>
  \<^verbatim>\<open>parse(file)\<close>, lines 80-114. A file is its name and its size (fields \<open>file_name\<close>,
  \<open>file_size\<close>). The two guards throw before the \<^verbatim>\<open>FileReader\<close> is created. Reading is the
  parameter \<open>readAsText\<close> (\<open>None\<close> when the reader reports an error), the request id is
  \<open>requestId\<close>. The result is the list of the steps taken and either the error thrown or
  the id of the request left pending for the sandbox's reply.
\<close>

record gpx_file =
  file_name :: string
  file_size :: nat

datatype gpx_error = INVALID_FILE_EXTENSION | FILE_TOO_LARGE | FILE_READ_ERROR

datatype gpx_step = ReadAsText | PostParseRequest string string

definition parse ::
  "(gpx_file \<Rightarrow> string option) \<Rightarrow> string \<Rightarrow> gpx_file \<Rightarrow> gpx_step list \<times> (gpx_error + string)" where
  "parse readAsText requestId f =
     (if \<not> endsWith (toLowerCase (file_name f)) ''.gpx'' then ([], Inl INVALID_FILE_EXTENSION)
      else if file_size f > 5 * 1024 * 1024 then ([], Inl FILE_TOO_LARGE)
      else case readAsText f of
             None \<Rightarrow> ([ReadAsText], Inl FILE_READ_ERROR)
           | Some content \<Rightarrow>
               ([ReadAsText, PostParseRequest requestId content], Inr requestId))"


section \<open>SecureStorage and FallbackStorage (src/assets/js/core/storage.js)\<close>

text \<open>
  What is kept in \<^verbatim>\<open>localStorage\<close> is a JavaScript string: a list of 16-bit code units.
  Binary data (\<^verbatim>\<open>Uint8Array\<close>, \<^verbatim>\<open>ArrayBuffer\<close>) is a list of bytes. \<^verbatim>\<open>localStorage\<close> itself
  is a map from names to strings, without a quota.
\<close>

type_synonym jstring = "16 word list"

type_synonym bytes = "8 word list"

type_synonym storage = "string \<rightharpoonup> jstring"

text \<open>
  The functions of the browser that the two stores call are parameters, gathered in one
  record; \<open>'k\<close> is the type of \<^verbatim>\<open>CryptoKey\<close> objects and \<open>'v\<close> the type of the values
  stored. A function that can throw returns \<open>None\<close> when it does.
  \<^item> \<open>json_stringify\<close>, \<open>json_parse\<close>: \<^verbatim>\<open>JSON.stringify\<close> and \<^verbatim>\<open>JSON.parse\<close> on values.
  \<^item> \<open>envelope_parse\<close>: \<^verbatim>\<open>const { iv, data } = JSON.parse(stored)\<close>.
  \<^item> \<open>btoa\<close>, \<open>atob\<close>, \<open>encodeURIComponent\<close>, \<open>decodeURIComponent\<close>, \<open>escape\<close>, \<open>unescape\<close>:
    the globals of these names.
  \<^item> \<open>utf8_decode\<close>: \<^verbatim>\<open>TextDecoder.decode\<close>.
  \<^item> \<open>decrypt key iv data\<close>: \<^verbatim>\<open>crypto.subtle.decrypt\<close> with AES-GCM; a failed decryption is
    an \<^verbatim>\<open>OperationError\<close>.
  \<^item> \<open>importKey\<close>: \<^verbatim>\<open>_importKey\<close> (lines 65-74) on the stored key text; \<open>deriveKey\<close>: the key
    derived from the device fingerprint (lines 30-50); \<open>exportKey\<close>: the JSON text of the
    exported key (line 53).
\<close>

record ('k, 'v) platform =
  json_stringify :: "'v \<Rightarrow> jstring option"
  json_parse :: "jstring \<Rightarrow> 'v option"
  envelope_parse :: "jstring \<Rightarrow> (jstring \<times> jstring) option"
  btoa :: "jstring \<Rightarrow> jstring option"
  atob :: "jstring \<Rightarrow> jstring option"
  encodeURIComponent :: "jstring \<Rightarrow> jstring option"
  decodeURIComponent :: "jstring \<Rightarrow> jstring option"
  escape :: "jstring \<Rightarrow> jstring"
  unescape :: "jstring \<Rightarrow> jstring"
  utf8_decode :: "bytes \<Rightarrow> jstring"
  decrypt :: "'k \<Rightarrow> bytes \<Rightarrow> bytes \<Rightarrow> bytes option"
  importKey :: "jstring \<Rightarrow> 'k option"
  deriveKey :: "'k option"
  exportKey :: "'k \<Rightarrow> jstring option"

text \<open>
  The state of a \<^verbatim>\<open>SecureStorage\<close>: \<^verbatim>\<open>localStorage\<close>, the field \<^verbatim>\<open>encryptionKey\<close> (\<open>None\<close> for
  \<^verbatim>\<open>null\<close>) and whether \<^verbatim>\<open>keyPromise\<close> is fulfilled (it is settled whenever an operation
  gets past its \<^verbatim>\<open>await\<close>).
\<close>

record 'k SecureStorage =
  localStorage :: storage
  encryptionKey :: "'k option"
  keyPromise :: bool

datatype storage_error = SECURE_STORAGE_INIT_FAILED | DATA_ENCRYPTION_FAILED

datatype js_exception = OperationError | OtherError

definition keyName :: string where
  "keyName = ''trailsync_encKey_v2''"

text \<open>
  \<^verbatim>\<open>_base64ToArrayBuffer\<close>, lines 181-188: a code unit is stored into the \<^verbatim>\<open>Uint8Array\<close> modulo
  256.
\<close>

definition base64ToArrayBuffer :: "('k, 'v) platform \<Rightarrow> jstring \<Rightarrow> bytes option" where
  "base64ToArrayBuffer P base64 = map_option (map ucast) (atob P base64)"

text \<open>
  \<^verbatim>\<open>_initKey\<close>, lines 20-59, returns the state and the error thrown, if any. A stored key
  text that is not empty is imported. Otherwise a key is derived, assigned to
  \<^verbatim>\<open>encryptionKey\<close>, exported and stored. Every exception is rethrown as
  \<^verbatim>\<open>SECURE_STORAGE_INIT_FAILED\<close>.
\<close>

definition deriveNewKey ::
  "('k, 'v) platform \<Rightarrow> 'k SecureStorage \<Rightarrow> 'k SecureStorage \<times> storage_error option" where
  "deriveNewKey P st =
     (case deriveKey P of
        None \<Rightarrow> (st, Some SECURE_STORAGE_INIT_FAILED)
      | Some k \<Rightarrow>
          (let st1 = st\<lparr> encryptionKey := Some k \<rparr>
           in case exportKey P k of
                None \<Rightarrow> (st1, Some SECURE_STORAGE_INIT_FAILED)
              | Some jwk \<Rightarrow>
                  (st1\<lparr> localStorage := (localStorage st1)(keyName \<mapsto> jwk) \<rparr>, None)))"

definition initKey ::
  "('k, 'v) platform \<Rightarrow> 'k SecureStorage \<Rightarrow> 'k SecureStorage \<times> storage_error option" where
  "initKey P st =
     (case localStorage st keyName of
        None \<Rightarrow> deriveNewKey P st
      | Some storedKey \<Rightarrow>
          (if storedKey = [] then deriveNewKey P st
           else case importKey P storedKey of
                  None \<Rightarrow> (st, Some SECURE_STORAGE_INIT_FAILED)
                | Some k \<Rightarrow> (st\<lparr> encryptionKey := Some k \<rparr>, None)))"

text \<open>The constructor, lines 11-14, once \<^verbatim>\<open>keyPromise\<close> has settled.\<close>

definition new_SecureStorage :: "('k, 'v) platform \<Rightarrow> storage \<Rightarrow> 'k SecureStorage" where
  "new_SecureStorage P ls =
     (let r = initKey P \<lparr> localStorage = ls, encryptionKey = None, keyPromise = True \<rparr>
      in (fst r)\<lparr> keyPromise := (snd r = None) \<rparr>)"

text \<open>
  \<^verbatim>\<open>setItem\<close>, lines 95-120, has no definition here. Its envelope is written as the object
  literal \<^verbatim>\<open>{ iv: this._arrayBufferToBase64(iv), this._arrayBufferToBase64(encrypted) }\<close> (lines
  110-113), whose second value has no property name: that is not an expression of
  JavaScript, so the method has no behaviour to translate, and the script that holds it
  does not load.
\<close>

text \<open>
  The \<^verbatim>\<open>try\<close> block of \<^verbatim>\<open>getItem\<close>, lines 134-144: the value, or the exception by its
  \<^verbatim>\<open>name\<close>. Only a failed \<^verbatim>\<open>crypto.subtle.decrypt\<close> is an \<^verbatim>\<open>OperationError\<close>.
\<close>

definition openValue ::
  "('k, 'v) platform \<Rightarrow> 'k option \<Rightarrow> jstring \<Rightarrow> js_exception + 'v" where
  "openValue P encKey stored =
     (case envelope_parse P stored of
        None \<Rightarrow> Inl OtherError
      | Some (iv, data) \<Rightarrow>
     (case base64ToArrayBuffer P iv of
        None \<Rightarrow> Inl OtherError
      | Some ivBuffer \<Rightarrow>
     (case base64ToArrayBuffer P data of
        None \<Rightarrow> Inl OtherError
      | Some dataBuffer \<Rightarrow>
     (case encKey of
        None \<Rightarrow> Inl OtherError
      | Some k \<Rightarrow>
     (case decrypt P k ivBuffer dataBuffer of
        None \<Rightarrow> Inl OperationError
      | Some decrypted \<Rightarrow>
     (case json_parse P (utf8_decode P decrypted) of
        None \<Rightarrow> Inl OtherError
      | Some v \<Rightarrow> Inr v))))))"

text \<open>
  \<^verbatim>\<open>getItem\<close>, lines 127-155. The result is \<open>None\<close> when the call never settles; otherwise
  the state and either the error the promise rejects with or the value it resolves to
  (\<open>None\<close> for \<^verbatim>\<open>null\<close>). On an \<^verbatim>\<open>OperationError\<close> the stored key is removed, \<^verbatim>\<open>_initKey\<close> runs
  again (its exception leaves the \<^verbatim>\<open>catch\<close> block) and \<^verbatim>\<open>getItem\<close> calls itself.
\<close>

partial_function (option) SecureStorage_getItem ::
  "('k, 'v) platform \<Rightarrow> string \<Rightarrow> 'k SecureStorage
     \<Rightarrow> ('k SecureStorage \<times> (storage_error + 'v option)) option" where
  "SecureStorage_getItem P key st =
     (if \<not> keyPromise st then Some (st, Inl SECURE_STORAGE_INIT_FAILED)
      else case localStorage st (''secure_'' @ key) of
             None \<Rightarrow> Some (st, Inr None)
           | Some stored \<Rightarrow>
               (if stored = [] then Some (st, Inr None)
                else case openValue P (encryptionKey st) stored of
                       Inr v \<Rightarrow> Some (st, Inr (Some v))
                     | Inl OtherError \<Rightarrow> Some (st, Inr None)
                     | Inl OperationError \<Rightarrow>
                         (let r = initKey P (st\<lparr> localStorage := (localStorage st)(keyName := None) \<rparr>)
                          in case snd r of
                               Some e \<Rightarrow> Some (fst r, Inl e)
                             | None \<Rightarrow> SecureStorage_getItem P key (fst r))))"

text \<open>
  \<^verbatim>\<open>FallbackStorage\<close>, lines 199-279. \<^verbatim>\<open>_obfuscate\<close> and \<^verbatim>\<open>_deobfuscate\<close> move every code unit
  by the length of \<^verbatim>\<open>obfuscationKey\<close>; \<^verbatim>\<open>String.fromCharCode\<close> takes its argument modulo
  \<open>2^16\<close>. Both operations catch every exception: \<^verbatim>\<open>setItem\<close> then stores nothing and
  \<^verbatim>\<open>getItem\<close> returns \<^verbatim>\<open>null\<close>.
\<close>

definition obfuscationKey :: string where
  "obfuscationKey = ''TRAILSYNC_FALLBACK''"

definition obfuscate :: "jstring \<Rightarrow> jstring" where
  "obfuscate str = map (\<lambda>c. c + of_nat (length obfuscationKey)) str"

definition deobfuscate :: "jstring \<Rightarrow> jstring" where
  "deobfuscate str = map (\<lambda>c. c - of_nat (length obfuscationKey)) str"

definition encodeFallback :: "('k, 'v) platform \<Rightarrow> 'v \<Rightarrow> jstring option" where
  "encodeFallback P v =
     (case json_stringify P v of
        None \<Rightarrow> None
      | Some text \<Rightarrow>
     (case encodeURIComponent P text of
        None \<Rightarrow> None
      | Some uri \<Rightarrow>
     (case btoa P (unescape P uri) of
        None \<Rightarrow> None
      | Some encrypted \<Rightarrow> Some (obfuscate encrypted))))"

definition FallbackStorage_setItem ::
  "('k, 'v) platform \<Rightarrow> string \<Rightarrow> 'v \<Rightarrow> storage \<Rightarrow> storage" where
  "FallbackStorage_setItem P key v ls =
     (case encodeFallback P v of
        None \<Rightarrow> ls
      | Some obfuscated \<Rightarrow> ls(''fallback_'' @ key \<mapsto> obfuscated))"

definition FallbackStorage_getItem ::
  "('k, 'v) platform \<Rightarrow> string \<Rightarrow> storage \<Rightarrow> 'v option" where
  "FallbackStorage_getItem P key ls =
     (case ls (''fallback_'' @ key) of
        None \<Rightarrow> None
      | Some obfuscated \<Rightarrow>
          (if obfuscated = [] then None
           else case atob P (deobfuscate obfuscated) of
                  None \<Rightarrow> None
                | Some binary \<Rightarrow>
                    (case decodeURIComponent P (escape P binary) of
                       None \<Rightarrow> None
                     | Some decoded \<Rightarrow> json_parse P decoded)))"

text \<open>
  What the round trip through \<^verbatim>\<open>FallbackStorage\<close> needs of the browser. The text
  \<^verbatim>\<open>JSON.stringify\<close> returns is not empty and is a well-formed string: the detour
  \<^verbatim>\<open>decodeURIComponent(escape(unescape(encodeURIComponent(text))))\<close> gives it back, and its
  middle is a string \<^verbatim>\<open>btoa\<close> accepts. \<^verbatim>\<open>atob\<close> inverts \<^verbatim>\<open>btoa\<close>. A value is JSON-serializable
  when \<^verbatim>\<open>JSON.parse\<close> gives it back from its \<^verbatim>\<open>JSON.stringify\<close> text.
\<close>

definition platform_laws :: "('k, 'v) platform \<Rightarrow> bool" where
  "platform_laws P =
     ((\<forall>v text. json_stringify P v = Some text \<longrightarrow>
         text \<noteq> []
         \<and> (\<exists>uri binary. encodeURIComponent P text = Some uri
              \<and> btoa P (unescape P uri) = Some binary
              \<and> decodeURIComponent P (escape P (unescape P uri)) = Some text))
      \<and> escape P [] = [] \<and> decodeURIComponent P [] = Some []
      \<and> (\<forall>x y. btoa P x = Some y \<longrightarrow> atob P y = Some x \<and> (x \<noteq> [] \<longrightarrow> y \<noteq> [])))"

definition json_serializable :: "('k, 'v) platform \<Rightarrow> 'v \<Rightarrow> bool" where
  "json_serializable P v =
     (case json_stringify P v of None \<Rightarrow> False | Some text \<Rightarrow> json_parse P text = Some v)"

text \<open>
  The state in which \<^verbatim>\<open>getItem\<close> finds a stored envelope that neither the current key
  nor the key derived from the fingerprint decrypts, while key derivation itself works.
\<close>

definition undecryptable :: "('k, 'v) platform \<Rightarrow> string \<Rightarrow> 'k SecureStorage \<Rightarrow> bool" where
  "undecryptable P key st =
     (keyPromise st \<and>
      (case localStorage st (''secure_'' @ key) of
         None \<Rightarrow> False
       | Some stored \<Rightarrow>
           stored \<noteq> []
           \<and> openValue P (encryptionKey st) stored = Inl OperationError
           \<and> (case deriveKey P of
                None \<Rightarrow> False
              | Some dk \<Rightarrow>
                  openValue P (Some dk) stored = Inl OperationError
                  \<and> exportKey P dk \<noteq> None)))"

text \<open>
  A small platform on which the definitions can be run: values are byte strings and
  their JSON text is the quoted string; base64 and the URI functions are the identity;
  the JSON text of an envelope is as many digits 1 as \<open>iv\<close> is long, a comma, \<open>iv\<close> and
  \<open>data\<close>; a key is one byte, and a ciphertext is the plaintext behind the key as its
  tag, so that decryption under another key fails; the fingerprint derives key 7.
\<close>

definition demo_platform :: "(8 word, bytes) platform" where
  "demo_platform =
     \<lparr> json_stringify = (\<lambda>v. Some (34 # map ucast v @ [34])),
       json_parse = (\<lambda>s. case s of
                            [] \<Rightarrow> None
                          | q # r \<Rightarrow> if q = 34 \<and> r \<noteq> [] \<and> last r = 34
                                     then Some (map ucast (butlast r)) else None),
       envelope_parse = (\<lambda>s. if s = [] then None
                              else let n = length (takeWhile (\<lambda>c. c = 49) s);
                                       rest = drop (Suc n) s
                                   in Some (take n rest, drop n rest)),
       btoa = Some,
       atob = Some,
       encodeURIComponent = Some,
       decodeURIComponent = Some,
       escape = (\<lambda>s. s),
       unescape = (\<lambda>s. s),
       utf8_decode = map ucast,
       decrypt = (\<lambda>k iv c. case c of [] \<Rightarrow> None
                                    | t # data \<Rightarrow> if t = k then Some data else None),
       importKey = (\<lambda>s. case s of [c] \<Rightarrow> Some (ucast c) | _ \<Rightarrow> None),
       deriveKey = Some 7,
       exportKey = (\<lambda>k. Some [ucast k]) \<rparr>"

text \<open>
  Sample data for the platform above: a value, an envelope in the stored format
  (\<^verbatim>\<open>{ iv: base64, data: base64 }\<close>, line 109) that holds it under key 5 with the nonce
  1, ..., 12, and a store created over a \<^verbatim>\<open>localStorage\<close> that holds this envelope next to
  the exported key 9.
\<close>

definition demo_value :: bytes where
  "demo_value = [104, 105]"

definition demo_foreign_envelope :: jstring where
  "demo_foreign_envelope =
     [49, 49, 49, 49, 49, 49, 49, 49, 49, 49, 49, 49, 44,
      1, 2, 3, 4, 5, 6, 7, 8, 9, 10, 11, 12,
      5, 34, 104, 105, 34]"

definition demo_stale_store :: "8 word SecureStorage" where
  "demo_stale_store =
     new_SecureStorage demo_platform
       [keyName \<mapsto> [9], ''secure_route'' \<mapsto> demo_foreign_envelope]"


section \<open>Properties of XSSProtection\<close>

text \<open>
  Whatever the input, the result of \<^verbatim>\<open>sanitize\<close> has no quotation mark, apostrophe, slash or
  backslash: each is replaced, and no later replacement brings one back.
\<close>

lemma set_replace_g: "set (replace_g c rep str) \<subseteq> (set str - {c}) \<union> set rep"
  by (induction str) (auto simp: replace_g_def)

lemma sanitize_str_escapes_quotes_and_slashes:
  "set (sanitize_str str) \<inter> {CHR 0x22, CHR 0x27, CHR ''/'', CHR 0x5C} = {}"
proof -
  define s1 where "s1 = replace_g (CHR ''&'') ''&amp;'' str"
  define s2 where "s2 = replace_g (CHR ''<'') ''<'' s1"
  define s3 where "s3 = replace_g (CHR ''>'') ''>'' s2"
  define s4 where "s4 = replace_g (CHR 0x22) ''&quot;'' s3"
  define s5 where "s5 = replace_g (CHR 0x27) ''&#039;'' s4"
  define s6 where "s6 = replace_g (CHR ''/'') ''&#x2F;'' s5"
  define s7 where "s7 = replace_g (CHR 0x5C) ''&#x5C;'' s6"
  have r: "sanitize_str str = s7"
    by (simp add: sanitize_str_def s1_def s2_def s3_def s4_def s5_def s6_def s7_def)
  have a4: "CHR 0x22 \<notin> set s4" using set_replace_g[of "CHR 0x22" "''&quot;''" s3] by (auto simp: s4_def)
  have a5: "CHR 0x22 \<notin> set s5 \<and> CHR 0x27 \<notin> set s5"
    using set_replace_g[of "CHR 0x27" "''&#039;''" s4] a4 by (auto simp: s5_def)
  have a6: "CHR 0x22 \<notin> set s6 \<and> CHR 0x27 \<notin> set s6 \<and> CHR ''/'' \<notin> set s6"
    using set_replace_g[of "CHR ''/''" "''&#x2F;''" s5] a5 by (auto simp: s6_def)
  have a7: "CHR 0x22 \<notin> set s7 \<and> CHR 0x27 \<notin> set s7 \<and> CHR ''/'' \<notin> set s7 \<and> CHR 0x5C \<notin> set s7"
    using set_replace_g[of "CHR 0x5C" "''&#x5C;''" s6] a6 by (auto simp: s7_def)
  then show ?thesis by (simp add: r)
qed

text \<open>
  Claim C1. \<^verbatim>\<open>sanitize\<close> is meant to return the entity-escaped form of a string, so that the
  result for \<^verbatim>\<open><script>alert(1)</script>\<close> holds no literal \<^verbatim>\<open><\<close> or \<^verbatim>\<open>>\<close>. The source replaces
  \<^verbatim>\<open><\<close> by \<^verbatim>\<open><\<close> and \<^verbatim>\<open>>\<close> by \<^verbatim>\<open>>\<close>: on that input only the slash is escaped, and both
  angle brackets are still in the result.
\<close>

theorem sanitize_keeps_angle_brackets:
  "sanitize (JStr ''<script>alert(1)</script>'') = JStr ''<script>alert(1)<&#x2F;script>''
   \<and> CHR ''<'' \<in> set (sanitize_str ''<script>alert(1)</script>'')
   \<and> CHR ''>'' \<in> set (sanitize_str ''<script>alert(1)</script>'')"
  by (simp add: sanitize_str_def replace_g_def)

text \<open>
  Claim C2. \<^verbatim>\<open>safeInsertHtml\<close> is meant to leave no element outside the allow-list and no
  attribute other than \<^verbatim>\<open>class\<close> and \<^verbatim>\<open>style\<close> anywhere in the inserted subtree. The loop
  filters the top-level nodes only and copies the inside of an allowed element as it is.
  For the fragment \<^verbatim>\<open><b><img src=x onerror=alert(1)></b>\<close> the sanitizer keeps the angle
  brackets and turns the closing tag into \<^verbatim>\<open><&#x2F;b>\<close>; an HTML parser reads the result as
  a bold element holding the image element and the text \<^verbatim>\<open></b>\<close>. The image and its
  \<^verbatim>\<open>onerror\<close> handler are in the inserted subtree.
\<close>

theorem safeInsertHtml_keeps_nested_handler:
  "sanitize_str ''<b><img src=x onerror=alert(1)></b>'' = ''<b><img src=x onerror=alert(1)><&#x2F;b>''
   \<and> safeInsertHtml
        (\<lambda>s. if s = ''<b><img src=x onerror=alert(1)><&#x2F;b>''
             then [ElementNode ''B'' []
                     [ElementNode ''IMG'' [(''src'', ''x''), (''onerror'', ''alert(1)'')] [],
                      TextNode ''</b>'']]
             else [])
        ''<b><img src=x onerror=alert(1)></b>''
       = ([ElementNode ''B'' []
             [ElementNode ''IMG'' [(''src'', ''x''), (''onerror'', ''alert(1)'')] [],
              TextNode ''</b>'']], False)
   \<and> (''IMG'', [(''src'', ''x''), (''onerror'', ''alert(1)'')])
        \<in> set (elements_of_list
                 [ElementNode ''B'' []
                    [ElementNode ''IMG'' [(''src'', ''x''), (''onerror'', ''alert(1)'')] [],
                     TextNode ''</b>'']])"
  by (simp add: safeInsertHtml_def sanitize_str_def replace_g_def toLowerCase_def
      toLowerChar_def allowedTags_def)


section \<open>Properties of ModuleSandbox\<close>

lemma digit_in: "d < 10 \<Longrightarrow> digit d \<in> set ''0123456789''"
  unfolding digit_def by (rule nth_mem) simp

lemma string_of_nat_digits: "set (string_of_nat n) \<subseteq> set ''0123456789''"
proof (induction n rule: string_of_nat.induct)
  case (1 n)
  show ?case
  proof (cases "n < 10")
    case True
    then show ?thesis using digit_in[of n] by (subst string_of_nat.simps) simp
  next
    case False
    have "digit (n mod 10) \<in> set ''0123456789''" by (rule digit_in) simp
    with False 1 show ?thesis by (subst string_of_nat.simps) simp
  qed
qed

text \<open>An array index is never one of the dropped keys: each of those has the letter o.\<close>

lemma index_not_pollution: "string_of_nat i \<notin> set pollutionKeys"
proof
  assume "string_of_nat i \<in> set pollutionKeys"
  then have "CHR ''o'' \<in> set (string_of_nat i)"
    by (auto simp: pollutionKeys_def)
  with string_of_nat_digits[of i] show False by auto
qed

text \<open>The loop over an array's entries pairs the indices with the sanitized elements.\<close>

lemma sanitizeElements_zip:
  "sanitizeElements i elems =
     zip (map string_of_nat [i ..< i + length elems]) (map sanitizeSandboxData elems)"
proof (induction elems arbitrary: i)
  case Nil
  show ?case by simp
next
  case (Cons v rest)
  have "[i ..< i + length (v # rest)] = i # [Suc i ..< Suc i + length rest]"
    by (subst upt_rec) simp
  with Cons[of "Suc i"] show ?case by (simp add: index_not_pollution)
qed

lemma no_pollution_keys:
  "keys_of (sanitizeSandboxData d) \<inter> set pollutionKeys = {}"
  "keys_of_entries (sanitizeEntries entries) \<inter> set pollutionKeys = {}"
  "keys_of_entries (sanitizeElements i elems) \<inter> set pollutionKeys = {}"
  by (induction d and entries and i elems
      rule: sanitizeSandboxData_sanitizeEntries_sanitizeElements.induct)
     (auto simp: Int_Un_distrib2)

lemma strings_sanitized:
  "strings_of (sanitizeSandboxData d) \<subseteq> sanitize_str ` strings_of d"
  "strings_of_entries (sanitizeEntries entries) \<subseteq> sanitize_str ` strings_of_entries entries"
  "strings_of_entries (sanitizeElements i elems) \<subseteq> sanitize_str ` strings_of_elements elems"
  by (induction d and entries and i elems
      rule: sanitizeSandboxData_sanitizeEntries_sanitizeElements.induct)
     auto

lemma no_array:
  "\<not> has_array (sanitizeSandboxData d)"
  "\<not> has_array_entries (sanitizeEntries entries)"
  "\<not> has_array_entries (sanitizeElements i elems)"
  by (induction d and entries and i elems
      rule: sanitizeSandboxData_sanitizeEntries_sanitizeElements.induct)
     auto

text \<open>
  Reading the result: a property of the sanitized value is absent under a dropped name
  and is the sanitized property of the payload otherwise, for objects and arrays alike;
  so is the value at the end of a path.
\<close>

lemma map_of_sanitizeEntries:
  "map_of (sanitizeEntries entries) k =
     (if k \<in> set pollutionKeys then None
      else map_option sanitizeSandboxData (map_of entries k))"
  by (induction entries) auto

lemma map_of_zip_map_values:
  "map_of (zip ks (map f vs)) k = map_option f (map_of (zip ks vs) k)"
proof (induction vs arbitrary: ks)
  case Nil
  show ?case by simp
next
  case (Cons v vs)
  show ?case by (cases ks) (simp_all add: Cons)
qed

lemma map_of_arrayEntries_pollution:
  assumes "k \<in> set pollutionKeys"
  shows "map_of (arrayEntries elems) k = None"
proof -
  have "k \<notin> set (map string_of_nat [0 ..< length elems])"
    using assms index_not_pollution by auto
  moreover have "fst ` set (arrayEntries elems) \<subseteq> set (map string_of_nat [0 ..< length elems])"
    unfolding arrayEntries_def by (auto dest: set_zip_leftD)
  ultimately show ?thesis by (auto simp: map_of_eq_None_iff)
qed

lemma get_prop_sanitizeSandboxData:
  "get_prop (sanitizeSandboxData d) k =
     (if k \<in> set pollutionKeys then None
      else map_option sanitizeSandboxData (get_prop d k))"
proof (cases d)
  case (JObj entries)
  then show ?thesis by (simp add: map_of_sanitizeEntries)
next
  case (JArr elems)
  have "map_of (sanitizeElements 0 elems) k = map_option sanitizeSandboxData (map_of (arrayEntries elems) k)"
    by (simp add: sanitizeElements_zip arrayEntries_def map_of_zip_map_values)
  with JArr show ?thesis using map_of_arrayEntries_pollution[of k elems] by simp
qed simp_all

lemma lookup_path_sanitizeSandboxData:
  "lookup_path path (sanitizeSandboxData d) =
     (if set path \<inter> set pollutionKeys = {}
      then map_option sanitizeSandboxData (lookup_path path d)
      else None)"
proof (induction path arbitrary: d)
  case Nil
  show ?case by simp
next
  case (Cons k path)
  show ?case
  proof (cases "k \<in> set pollutionKeys")
    case True
    then show ?thesis by (auto simp: get_prop_sanitizeSandboxData)
  next
    case False
    then have i: "set (k # path) \<inter> set pollutionKeys = set path \<inter> set pollutionKeys" by auto
    show ?thesis
    proof (cases "get_prop d k")
      case None
      with False show ?thesis by (simp add: get_prop_sanitizeSandboxData)
    next
      case (Some w)
      with False i Cons[of w] show ?thesis by (simp add: get_prop_sanitizeSandboxData)
    qed
  qed
qed

text \<open>The sample payload at some paths.\<close>

lemma demo_paths:
  "lookup_path [''msg''] demo_payload = Some (JStr ''a/b'')"
  "lookup_path [''list'', ''0''] demo_payload = Some (JStr ''/'')"
  "lookup_path [''n''] demo_payload = Some (JNum 3)"
  "lookup_path [''list''] demo_payload = Some (JArr [JStr ''/'', JNum 2])"
  "lookup_path [''missing''] demo_payload = None"
  "lookup_path [''__proto__'', ''x''] demo_payload = Some (JNum 1)"
  by (simp_all add: demo_payload_def arrayEntries_def string_of_nat.simps digit_def)

lemma demo_path_keys:
  "set [''msg''] \<inter> set pollutionKeys = {}"
  "set [''list'', ''0''] \<inter> set pollutionKeys = {}"
  "set [''n''] \<inter> set pollutionKeys = {}"
  "set [''list''] \<inter> set pollutionKeys = {}"
  "set [''__proto__'', ''x''] \<inter> set pollutionKeys \<noteq> {}"
  by (simp_all add: pollutionKeys_def)

text \<open>
  Claim C8. The custom event that \<^verbatim>\<open>handleMessage\<close> dispatches for a sandbox payload is
  named after the module, and of its detail: no key at any depth is \<^verbatim>\<open>__proto__\<close>,
  \<^verbatim>\<open>constructor\<close> or \<^verbatim>\<open>prototype\<close>, and nothing is found along a path that has such a name;
  every string value in it is \<^verbatim>\<open>XSSProtection.sanitize\<close> of a string value of the payload;
  along every other path, where the payload has a string the detail has its \<^verbatim>\<open>sanitize\<close>,
  where the payload has a number, a boolean, \<^verbatim>\<open>null\<close> or \<^verbatim>\<open>undefined\<close> the detail has the same
  value, where the payload has an object or an array the detail has an object, and where
  the payload has nothing the detail has nothing. Property names are kept as they are.
\<close>

theorem sandbox_payload_sanitized:
  "fst (handleSandboxMessage moduleId payload) = ''sandbox-message-'' @ moduleId
   \<and> keys_of (snd (handleSandboxMessage moduleId payload)) \<inter> set pollutionKeys = {}
   \<and> strings_of (snd (handleSandboxMessage moduleId payload))
        \<subseteq> sanitize_str ` strings_of payload
   \<and> (set path \<inter> set pollutionKeys \<noteq> {} \<longrightarrow>
        lookup_path path (snd (handleSandboxMessage moduleId payload)) = None)
   \<and> (set path \<inter> set pollutionKeys = {} \<and> lookup_path path payload = Some (JStr s) \<longrightarrow>
        lookup_path path (snd (handleSandboxMessage moduleId payload)) = Some (sanitize (JStr s)))
   \<and> (set path \<inter> set pollutionKeys = {} \<and> lookup_path path payload = Some v
        \<and> \<not> is_string v \<and> \<not> is_object v \<longrightarrow>
        lookup_path path (snd (handleSandboxMessage moduleId payload)) = Some v)
   \<and> (set path \<inter> set pollutionKeys = {} \<and> lookup_path path payload = Some v \<and> is_object v \<longrightarrow>
        (\<exists>entries. lookup_path path (snd (handleSandboxMessage moduleId payload))
           = Some (JObj entries)))
   \<and> (lookup_path path payload = None \<longrightarrow>
        lookup_path path (snd (handleSandboxMessage moduleId payload)) = None)"
  by (auto simp: handleSandboxMessage_def no_pollution_keys(1) lookup_path_sanitizeSandboxData
      is_string_def is_object_def dest: subsetD[OF strings_sanitized(1)] split: jsval.splits)

theorem sandbox_payload_sanitized_witness:
  "set [''__proto__'', ''x''] \<inter> set pollutionKeys \<noteq> {}
   \<and> lookup_path [''__proto__'', ''x''] demo_payload = Some (JNum 1)
   \<and> lookup_path [''__proto__'', ''x''] (snd (handleSandboxMessage ''gpx'' demo_payload)) = None
   \<and> lookup_path [''msg''] (snd (handleSandboxMessage ''gpx'' demo_payload)) = Some (JStr ''a&#x2F;b'')
   \<and> lookup_path [''list'', ''0''] (snd (handleSandboxMessage ''gpx'' demo_payload))
       = Some (JStr ''&#x2F;'')
   \<and> lookup_path [''n''] (snd (handleSandboxMessage ''gpx'' demo_payload)) = Some (JNum 3)
   \<and> lookup_path [''missing''] (snd (handleSandboxMessage ''gpx'' demo_payload)) = None"
proof -
  note t = sandbox_payload_sanitized[of "''gpx''" demo_payload]
  have s: "sanitize (JStr ''a/b'') = JStr ''a&#x2F;b''" "sanitize (JStr ''/'') = JStr ''&#x2F;''"
    by (simp_all add: sanitize_str_def replace_g_def)
  have a: "lookup_path [''__proto__'', ''x''] (snd (handleSandboxMessage ''gpx'' demo_payload)) = None"
    by (rule t[THEN conjunct2, THEN conjunct2, THEN conjunct2, THEN conjunct1, THEN mp])
       (rule demo_path_keys)
  have "lookup_path [''msg''] (snd (handleSandboxMessage ''gpx'' demo_payload))
          = Some (sanitize (JStr ''a/b''))"
    by (rule t[THEN conjunct2, THEN conjunct2, THEN conjunct2, THEN conjunct2, THEN conjunct1,
          THEN mp])
       (intro conjI demo_path_keys demo_paths)
  then have b: "lookup_path [''msg''] (snd (handleSandboxMessage ''gpx'' demo_payload))
          = Some (JStr ''a&#x2F;b'')"
    by (simp only: s)
  have "lookup_path [''list'', ''0''] (snd (handleSandboxMessage ''gpx'' demo_payload))
          = Some (sanitize (JStr ''/''))"
    by (rule t[THEN conjunct2, THEN conjunct2, THEN conjunct2, THEN conjunct2, THEN conjunct1,
          THEN mp])
       (intro conjI demo_path_keys demo_paths)
  then have c: "lookup_path [''list'', ''0''] (snd (handleSandboxMessage ''gpx'' demo_payload))
          = Some (JStr ''&#x2F;'')"
    by (simp only: s)
  have p: "\<not> is_string (JNum 3)" "\<not> is_object (JNum 3)"
    by (simp_all add: is_string_def is_object_def)
  have d: "lookup_path [''n''] (snd (handleSandboxMessage ''gpx'' demo_payload)) = Some (JNum 3)"
    by (rule t[THEN conjunct2, THEN conjunct2, THEN conjunct2, THEN conjunct2, THEN conjunct2,
          THEN conjunct1, THEN mp])
       (intro conjI demo_path_keys demo_paths p)
  have e: "lookup_path [''missing''] (snd (handleSandboxMessage ''gpx'' demo_payload)) = None"
    by (rule t[THEN conjunct2, THEN conjunct2, THEN conjunct2, THEN conjunct2, THEN conjunct2,
          THEN conjunct2, THEN conjunct2, THEN mp])
       (rule demo_paths)
  from a b c d e demo_path_keys(5) demo_paths(6) show ?thesis by (intro conjI)
qed

text \<open>
  Claim C9, as amended. Where the payload has an array at a path without a dropped name,
  the detail of the dispatched event has in its place the plain object of the array's
  indices and sanitized elements; under a dropped name the detail has nothing; and the
  detail holds no array at any depth.
\<close>

theorem sandbox_arrays_become_objects:
  "(set path \<inter> set pollutionKeys = {} \<and> lookup_path path payload = Some (JArr elems) \<longrightarrow>
      lookup_path path (snd (handleSandboxMessage moduleId payload))
        = Some (JObj (zip (map string_of_nat [0 ..< length elems])
                          (map sanitizeSandboxData elems))))
   \<and> (set path \<inter> set pollutionKeys \<noteq> {} \<longrightarrow>
        lookup_path path (snd (handleSandboxMessage moduleId payload)) = None)
   \<and> \<not> has_array (snd (handleSandboxMessage moduleId payload))"
  by (simp add: handleSandboxMessage_def no_array(1) lookup_path_sanitizeSandboxData
      sanitizeElements_zip)

theorem sandbox_arrays_become_objects_witness:
  "set [''list''] \<inter> set pollutionKeys = {}
   \<and> lookup_path [''list''] demo_payload = Some (JArr [JStr ''/'', JNum 2])
   \<and> lookup_path [''list''] (snd (handleSandboxMessage ''gpx'' demo_payload))
       = Some (JObj [(''0'', JStr ''&#x2F;''), (''1'', JNum 2)])
   \<and> set [''__proto__'', ''x''] \<inter> set pollutionKeys \<noteq> {}
   \<and> lookup_path [''__proto__'', ''x''] (snd (handleSandboxMessage ''gpx'' demo_payload)) = None"
proof -
  note t = sandbox_arrays_become_objects[of _ demo_payload _ "''gpx''"]
  have s: "zip (map string_of_nat [0 ..< length [JStr ''/'', JNum 2]])
               (map sanitizeSandboxData [JStr ''/'', JNum 2])
           = [(''0'', JStr ''&#x2F;''), (''1'', JNum 2)]"
    by (simp add: sanitize_str_def replace_g_def string_of_nat.simps digit_def)
  have "lookup_path [''list''] (snd (handleSandboxMessage ''gpx'' demo_payload))
          = Some (JObj (zip (map string_of_nat [0 ..< length [JStr ''/'', JNum 2]])
                            (map sanitizeSandboxData [JStr ''/'', JNum 2])))"
    by (rule t[THEN conjunct1, THEN mp]) (intro conjI demo_path_keys demo_paths)
  then have a: "lookup_path [''list''] (snd (handleSandboxMessage ''gpx'' demo_payload))
          = Some (JObj [(''0'', JStr ''&#x2F;''), (''1'', JNum 2)])"
    by (simp only: s)
  have b: "lookup_path [''__proto__'', ''x''] (snd (handleSandboxMessage ''gpx'' demo_payload)) = None"
    by (rule t[THEN conjunct2, THEN conjunct1, THEN mp]) (rule demo_path_keys)
  from demo_path_keys(4) demo_paths(4) a demo_path_keys(5) b show ?thesis by (intro conjI)
qed

text \<open>
  Claim C9 as stated fails for an array under a dropped name: the payload
  \<^verbatim>\<open>{ constructor: [1, 2] }\<close> has an array at \<^verbatim>\<open>constructor\<close>, the result is \<^verbatim>\<open>{}\<close>, and there
  is no object in the array's place.
\<close>

theorem sandbox_array_under_dropped_key:
  "lookup_path [''constructor''] (JObj [(''constructor'', JArr [JNum 1, JNum 2])])
     = Some (JArr [JNum 1, JNum 2])
   \<and> sanitizeSandboxData (JObj [(''constructor'', JArr [JNum 1, JNum 2])]) = JObj []
   \<and> lookup_path [''constructor'']
        (snd (handleSandboxMessage ''m'' (JObj [(''constructor'', JArr [JNum 1, JNum 2])]))) = None"
  by (simp add: handleSandboxMessage_def pollutionKeys_def)


section \<open>Properties of SecurityCore\<close>

lemma map_of_sanitizeDetails:
  "map_of (sanitizeDetails details) k =
     (if toLowerCase k \<in> set sensitiveDetails then None
      else map_option (\<lambda>v. case v of JNum x \<Rightarrow> JNum (parseFloat_toFixed2 x)
                               | JStr s \<Rightarrow> JStr (sanitize_str s) | _ \<Rightarrow> v)
             (map_of details k))"
  by (induction details rule: sanitizeDetails.induct) (auto split: jsval.splits)

text \<open>Below \<open>10^21\<close> the result is a whole number of hundredths, at most 0.005 away.\<close>

lemma toFixed2_rounds:
  assumes "\<bar>x\<bar> < 10 ^ 21"
  shows "\<exists>n::int. parseFloat_toFixed2 x = of_int n / 100 \<and> \<bar>of_int n / 100 - x\<bar> \<le> 1 / 200"
proof -
  define m where "m = \<lfloor>\<bar>x\<bar> * 100 + 1 / 2\<rfloor>"
  have lo: "of_int m \<le> \<bar>x\<bar> * 100 + 1 / 2" unfolding m_def by (rule of_int_floor_le)
  have hi: "\<bar>x\<bar> * 100 + 1 / 2 < of_int m + 1" unfolding m_def by linarith
  have val: "parseFloat_toFixed2 x = sgn x * (of_int m / 100)"
    using assms by (simp add: parseFloat_toFixed2_def m_def)
  have d: "\<bar>of_int m / 100 - \<bar>x\<bar>\<bar> \<le> 1 / 200" using lo hi by linarith
  show ?thesis
  proof (cases "0 \<le> x")
    case True
    then have "x = 0 \<or> 0 < x" by auto
    then show ?thesis
    proof
      assume "x = 0"
      then have "parseFloat_toFixed2 x = of_int 0 / 100" by (simp add: parseFloat_toFixed2_def)
      with \<open>x = 0\<close> show ?thesis by (intro exI[of _ 0]) simp
    next
      assume "0 < x"
      then have "parseFloat_toFixed2 x = of_int m / 100" using val by simp
      moreover have "\<bar>of_int m / 100 - x\<bar> \<le> 1 / 200" using d \<open>0 < x\<close> by simp
      ultimately show ?thesis by blast
    qed
  next
    case False
    then have neg: "x < 0" by simp
    then have "parseFloat_toFixed2 x = of_int (- m) / 100" using val by simp
    moreover have "rat_of_int (- m) / 100 - x = - (of_int m / 100 - \<bar>x\<bar>)" using neg by simp
    then have "\<bar>rat_of_int (- m) / 100 - x\<bar> \<le> 1 / 200" using d by (simp only: abs_minus_cancel)
    ultimately show ?thesis by blast
  qed
qed

text \<open>
  Claim C10. Of what \<^verbatim>\<open>logSecurityEvent\<close> hands to the logging sink: the event type is
  passed on; a field whose lower-cased name is \<^verbatim>\<open>route\<close>, \<^verbatim>\<open>eph\<close> or \<^verbatim>\<open>password\<close> is absent, and
  so is a field the details do not have; of the other fields, a number is replaced by
  \<^verbatim>\<open>parseFloat(value.toFixed(2))\<close>, which below \<open>10^21\<close> is a whole number of hundredths at
  most 0.005 from the value, a string is replaced by its \<^verbatim>\<open>sanitize\<close>, and a value of any
  other type is kept as it is.
\<close>

theorem logSecurityEvent_scrubs_details:
  "fst (logSecurityEvent eventType details) = eventType
   \<and> (toLowerCase k \<in> set sensitiveDetails \<longrightarrow>
        map_of (snd (logSecurityEvent eventType details)) k = None)
   \<and> (map_of details k = None \<longrightarrow>
        map_of (snd (logSecurityEvent eventType details)) k = None)
   \<and> (toLowerCase k \<notin> set sensitiveDetails \<and> map_of details k = Some (JNum x) \<longrightarrow>
        map_of (snd (logSecurityEvent eventType details)) k = Some (JNum (parseFloat_toFixed2 x))
        \<and> (\<bar>x\<bar> < 10 ^ 21 \<longrightarrow>
             (\<exists>n::int. parseFloat_toFixed2 x = of_int n / 100 \<and> \<bar>of_int n / 100 - x\<bar> \<le> 1 / 200)))
   \<and> (toLowerCase k \<notin> set sensitiveDetails \<and> map_of details k = Some (JStr s) \<longrightarrow>
        map_of (snd (logSecurityEvent eventType details)) k = Some (sanitize (JStr s)))
   \<and> (toLowerCase k \<notin> set sensitiveDetails \<and> map_of details k = Some v
        \<and> \<not> is_number v \<and> \<not> is_string v \<longrightarrow>
        map_of (snd (logSecurityEvent eventType details)) k = Some v)"
  using toFixed2_rounds[of x]
  by (auto simp: logSecurityEvent_def map_of_sanitizeDetails is_number_def is_string_def
      split: jsval.splits)

theorem logSecurityEvent_scrubs_details_witness:
  "toLowerCase ''Route'' \<in> set sensitiveDetails
   \<and> toLowerCase ''pace'' \<notin> set sensitiveDetails
   \<and> \<bar>314159 / 100000 :: rat\<bar> < 10 ^ 21
   \<and> map_of (snd (logSecurityEvent ''LOGIN''
          [(''Route'', JStr ''Alps''), (''pace'', JNum (314159 / 100000)),
           (''note'', JStr ''a&b/c''), (''ok'', JBool True)])) ''Route'' = None
   \<and> map_of (snd (logSecurityEvent ''LOGIN''
          [(''Route'', JStr ''Alps''), (''pace'', JNum (314159 / 100000)),
           (''note'', JStr ''a&b/c''), (''ok'', JBool True)])) ''pace'' = Some (JNum (314 / 100))
   \<and> map_of (snd (logSecurityEvent ''LOGIN''
          [(''Route'', JStr ''Alps''), (''pace'', JNum (314159 / 100000)),
           (''note'', JStr ''a&b/c''), (''ok'', JBool True)])) ''note'' = Some (JStr ''a&amp;b&#x2F;c'')
   \<and> map_of (snd (logSecurityEvent ''LOGIN''
          [(''Route'', JStr ''Alps''), (''pace'', JNum (314159 / 100000)),
           (''note'', JStr ''a&b/c''), (''ok'', JBool True)])) ''ok'' = Some (JBool True)"
proof -
  let ?d = "[(''Route'', JStr ''Alps''), (''pace'', JNum (314159 / 100000)),
             (''note'', JStr ''a&b/c''), (''ok'', JBool True)]"
  have low: "toLowerCase ''Route'' = ''route''" "toLowerCase ''pace'' = ''pace''"
    "toLowerCase ''note'' = ''note''" "toLowerCase ''ok'' = ''ok''"
    by (simp_all add: toLowerCase_def toLowerChar_def)
  have r: "parseFloat_toFixed2 (314159 / 100000) = 314 / 100"
    by (simp add: parseFloat_toFixed2_def floor_eq_iff)
  have s: "sanitize_str ''a&b/c'' = ''a&amp;b&#x2F;c''"
    by (simp add: sanitize_str_def replace_g_def)
  have a: "map_of (snd (logSecurityEvent ''LOGIN'' ?d)) ''Route'' = None"
    using logSecurityEvent_scrubs_details[of "''LOGIN''" ?d "''Route''"]
    by (simp add: low sensitiveDetails_def)
  have b: "map_of (snd (logSecurityEvent ''LOGIN'' ?d)) ''pace'' = Some (JNum (314 / 100))"
    using logSecurityEvent_scrubs_details[of "''LOGIN''" ?d "''pace''" "314159 / 100000"]
    by (simp add: low r sensitiveDetails_def)
  have c: "map_of (snd (logSecurityEvent ''LOGIN'' ?d)) ''note'' = Some (JStr ''a&amp;b&#x2F;c'')"
    using logSecurityEvent_scrubs_details[of "''LOGIN''" ?d "''note''" _ "''a&b/c''"]
    by (simp add: low s sensitiveDetails_def)
  have d: "map_of (snd (logSecurityEvent ''LOGIN'' ?d)) ''ok'' = Some (JBool True)"
    using logSecurityEvent_scrubs_details[of "''LOGIN''" ?d "''ok''" _ _ "JBool True"]
    by (simp add: low sensitiveDetails_def is_number_def is_string_def)
  show ?thesis using a b c d by (simp add: low sensitiveDetails_def)
qed


section \<open>Properties of ThreatMonitor\<close>

text \<open>The reducer of \<^verbatim>\<open>_checkThreatLevel\<close> adds the weights up.\<close>

lemma foldl_riskLevel: "foldl (\<lambda>sum e. sum + ev_riskLevel e) a es = a + sum_list (map ev_riskLevel es)"
  by (induction es arbitrary: a) auto

lemma riskScore_count:
  assumes "\<forall>e \<in> set history. ev_riskLevel e = 1"
  shows "riskScore now history = int (length (filter (\<lambda>e. now - ev_timestamp e < 60000) history))"
proof -
  have unit: "sum_list (map ev_riskLevel es) = int (length es)" if "\<forall>e \<in> set es. ev_riskLevel e = 1" for es :: "event list"
    using that by (induction es) auto
  have "\<forall>e \<in> set (filter (\<lambda>e. now - ev_timestamp e < 60000) history). ev_riskLevel e = 1"
    using assms by simp
  from unit[OF this] show ?thesis by (simp add: riskScore_def foldl_riskLevel)
qed

lemma riskScore_le:
  assumes "\<forall>e \<in> set history. ev_riskLevel e = 1"
  shows "riskScore now history \<le> int (length history)"
  using riskScore_count[OF assms, of now] by simp

lemma eventHistory_recordEvent:
  "length (eventHistory tm) < 100 \<Longrightarrow>
   eventHistory (recordEvent t c b ty d tm) =
     eventHistory tm @ [\<lparr> ev_timestamp = t, ev_type = ty,
                          ev_details = sanitizeEventData (JObj d),
                          ev_riskLevel = calculateRiskLevel ty \<rparr>]"
  by (simp add: recordEvent_def checkThreatLevel_def showWarning_def blockAccess_def Let_def)

lemma blockThreshold_recordEvent:
  "blockThreshold (recordEvent t c b ty d tm) = blockThreshold tm"
  by (simp add: recordEvent_def checkThreatLevel_def showWarning_def blockAccess_def Let_def)

lemma blockCount_recordEvent:
  "blockCount (recordEvent t c b ty d tm) =
     blockCount tm +
     (if riskScore c (eventHistory (recordEvent t c b ty d tm)) \<ge> blockThreshold tm then 1 else 0)"
  by (simp add: recordEvent_def checkThreatLevel_def showWarning_def blockAccess_def Let_def
      blockCount_def)

text \<open>The history never grows beyond 100 events.\<close>

lemma eventHistory_bounded:
  "length (eventHistory tm) \<le> 100 \<Longrightarrow>
   length (eventHistory (recordEvent nowEvent nowCheck nowBlock type details tm)) \<le> 100"
  by (simp add: recordEvent_def checkThreatLevel_def showWarning_def blockAccess_def Let_def)

text \<open>
  Claim C6. Five events of weight 1 are recorded by a fresh monitor, with non-decreasing
  timestamps \<open>t1\<close> to \<open>t5\<close>; \<open>c5\<close> is the clock at the fifth threshold check. The first four
  events never run the block path. With the fifth, the block path has run exactly once
  when the first event is less than 60000 ms old at that check, so that all five are in
  the window, and has not run at all otherwise; five events spread over two minutes are
  of the second kind. The sum of the window reaches \<^verbatim>\<open>blockThreshold\<close> at the fifth check in
  the first case only.
\<close>

theorem five_unit_events_block_in_window:
  assumes w: "calculateRiskLevel ty1 = 1" "calculateRiskLevel ty2 = 1" "calculateRiskLevel ty3 = 1"
             "calculateRiskLevel ty4 = 1" "calculateRiskLevel ty5 = 1"
      and ord: "t1 \<le> t2" "t2 \<le> t3" "t3 \<le> t4" "t4 \<le> t5"
  shows "blockCount
           (recordEvent t4 c4 b4 ty4 d4
             (recordEvent t3 c3 b3 ty3 d3
               (recordEvent t2 c2 b2 ty2 d2
                 (recordEvent t1 c1 b1 ty1 d1 new_ThreatMonitor)))) = 0
         \<and> blockCount
           (recordEvent t5 c5 b5 ty5 d5
             (recordEvent t4 c4 b4 ty4 d4
               (recordEvent t3 c3 b3 ty3 d3
                 (recordEvent t2 c2 b2 ty2 d2
                   (recordEvent t1 c1 b1 ty1 d1 new_ThreatMonitor)))))
           = (if c5 - t1 < 60000 then 1 else 0)
         \<and> (blockThreshold new_ThreatMonitor
               \<le> riskScore c5
                   (eventHistory
                     (recordEvent t5 c5 b5 ty5 d5
                       (recordEvent t4 c4 b4 ty4 d4
                         (recordEvent t3 c3 b3 ty3 d3
                           (recordEvent t2 c2 b2 ty2 d2
                             (recordEvent t1 c1 b1 ty1 d1 new_ThreatMonitor))))))
              \<longleftrightarrow> c5 - t1 < 60000)"
proof -
  define tm1 where "tm1 = recordEvent t1 c1 b1 ty1 d1 new_ThreatMonitor"
  define tm2 where "tm2 = recordEvent t2 c2 b2 ty2 d2 tm1"
  define tm3 where "tm3 = recordEvent t3 c3 b3 ty3 d3 tm2"
  define tm4 where "tm4 = recordEvent t4 c4 b4 ty4 d4 tm3"
  define tm5 where "tm5 = recordEvent t5 c5 b5 ty5 d5 tm4"
  define ev where "ev = (\<lambda>t ty d. \<lparr> ev_timestamp = t, ev_type = ty,
        ev_details = sanitizeEventData (JObj d), ev_riskLevel = calculateRiskLevel ty \<rparr>)"
  have h0: "eventHistory new_ThreatMonitor = []" "blockThreshold new_ThreatMonitor = 5"
    "blockCount new_ThreatMonitor = 0"
    by (simp_all add: new_ThreatMonitor_def blockCount_def)
  have h1: "eventHistory tm1 = [ev t1 ty1 d1]"
    unfolding tm1_def ev_def by (subst eventHistory_recordEvent) (simp_all add: h0)
  have h2: "eventHistory tm2 = [ev t1 ty1 d1, ev t2 ty2 d2]"
    unfolding tm2_def ev_def by (subst eventHistory_recordEvent) (simp_all add: h1 ev_def)
  have h3: "eventHistory tm3 = [ev t1 ty1 d1, ev t2 ty2 d2, ev t3 ty3 d3]"
    unfolding tm3_def ev_def by (subst eventHistory_recordEvent) (simp_all add: h2 ev_def)
  have h4: "eventHistory tm4 = [ev t1 ty1 d1, ev t2 ty2 d2, ev t3 ty3 d3, ev t4 ty4 d4]"
    unfolding tm4_def ev_def by (subst eventHistory_recordEvent) (simp_all add: h3 ev_def)
  have h5: "eventHistory tm5 = [ev t1 ty1 d1, ev t2 ty2 d2, ev t3 ty3 d3, ev t4 ty4 d4, ev t5 ty5 d5]"
    unfolding tm5_def ev_def by (subst eventHistory_recordEvent) (simp_all add: h4 ev_def)
  have th: "blockThreshold tm1 = 5" "blockThreshold tm2 = 5" "blockThreshold tm3 = 5"
    "blockThreshold tm4 = 5"
    by (simp_all add: tm1_def tm2_def tm3_def tm4_def blockThreshold_recordEvent h0)
  have unit: "\<forall>e \<in> set (eventHistory tm1). ev_riskLevel e = 1"
    "\<forall>e \<in> set (eventHistory tm2). ev_riskLevel e = 1"
    "\<forall>e \<in> set (eventHistory tm3). ev_riskLevel e = 1"
    "\<forall>e \<in> set (eventHistory tm4). ev_riskLevel e = 1"
    "\<forall>e \<in> set (eventHistory tm5). ev_riskLevel e = 1"
    by (simp_all add: h1 h2 h3 h4 h5 ev_def w)
  have s1: "riskScore c1 (eventHistory tm1) < 5" using riskScore_le[OF unit(1), of c1] by (simp add: h1)
  have s2: "riskScore c2 (eventHistory tm2) < 5" using riskScore_le[OF unit(2), of c2] by (simp add: h2)
  have s3: "riskScore c3 (eventHistory tm3) < 5" using riskScore_le[OF unit(3), of c3] by (simp add: h3)
  have s4: "riskScore c4 (eventHistory tm4) < 5" using riskScore_le[OF unit(4), of c4] by (simp add: h4)
  have b1: "blockCount tm1 = 0"
    unfolding tm1_def using s1 by (subst blockCount_recordEvent) (simp add: h0 tm1_def)
  have b2: "blockCount tm2 = 0"
    unfolding tm2_def using s2 by (subst blockCount_recordEvent) (simp add: b1 th tm2_def)
  have b3: "blockCount tm3 = 0"
    unfolding tm3_def using s3 by (subst blockCount_recordEvent) (simp add: b2 th tm3_def)
  have b4: "blockCount tm4 = 0"
    unfolding tm4_def using s4 by (subst blockCount_recordEvent) (simp add: b3 th tm4_def)
  have "riskScore c5 (eventHistory tm5) =
      int (length (filter (\<lambda>e. c5 - ev_timestamp e < 60000) (eventHistory tm5)))"
    by (rule riskScore_count[OF unit(5)])
  then have s5: "riskScore c5 (eventHistory tm5) \<ge> 5 \<longleftrightarrow> c5 - t1 < 60000"
    using ord by (auto simp: h5 ev_def)
  have b5: "blockCount tm5 = (if c5 - t1 < 60000 then 1 else 0)"
    unfolding tm5_def using s5 by (subst blockCount_recordEvent) (simp add: b4 th tm5_def)
  show ?thesis using b4 b5 s5 h0(2) by (simp add: tm1_def tm2_def tm3_def tm4_def tm5_def)
qed

theorem five_unit_events_block_in_window_witness:
  "calculateRiskLevel ''INVALID_GPX'' = 1
   \<and> blockCount
        (recordEvent 40000 40000 40000 ''INVALID_GPX'' []
          (recordEvent 30000 30000 30000 ''INVALID_GPX'' []
            (recordEvent 20000 20000 20000 ''INVALID_GPX'' []
              (recordEvent 10000 10000 10000 ''INVALID_GPX'' []
                (recordEvent 0 0 0 ''INVALID_GPX'' [] new_ThreatMonitor))))) = 1
   \<and> blockCount
        (recordEvent 120000 120000 120000 ''INVALID_GPX'' []
          (recordEvent 90000 90000 90000 ''INVALID_GPX'' []
            (recordEvent 60000 60000 60000 ''INVALID_GPX'' []
              (recordEvent 30000 30000 30000 ''INVALID_GPX'' []
                (recordEvent 0 0 0 ''INVALID_GPX'' [] new_ThreatMonitor))))) = 0"
proof -
  have w: "calculateRiskLevel ''INVALID_GPX'' = 1"
    by (simp add: calculateRiskLevel_def riskLevels_def)
  have near: "blockCount
        (recordEvent 40000 40000 40000 ''INVALID_GPX'' []
          (recordEvent 30000 30000 30000 ''INVALID_GPX'' []
            (recordEvent 20000 20000 20000 ''INVALID_GPX'' []
              (recordEvent 10000 10000 10000 ''INVALID_GPX'' []
                (recordEvent 0 0 0 ''INVALID_GPX'' [] new_ThreatMonitor)))))
        = (if (40000::int) - 0 < 60000 then 1 else 0)"
    by (rule five_unit_events_block_in_window[OF w w w w w, THEN conjunct2, THEN conjunct1])
      simp_all
  have far: "blockCount
        (recordEvent 120000 120000 120000 ''INVALID_GPX'' []
          (recordEvent 90000 90000 90000 ''INVALID_GPX'' []
            (recordEvent 60000 60000 60000 ''INVALID_GPX'' []
              (recordEvent 30000 30000 30000 ''INVALID_GPX'' []
                (recordEvent 0 0 0 ''INVALID_GPX'' [] new_ThreatMonitor)))))
        = (if (120000::int) - 0 < 60000 then 1 else 0)"
    by (rule five_unit_events_block_in_window[OF w w w w w, THEN conjunct2, THEN conjunct1])
      simp_all
  show ?thesis using near far w by simp
qed

lemma replace_g_replicate: "a \<noteq> c \<Longrightarrow> replace_g c rep (replicate n a) = replicate n a"
  by (induction n) (simp_all add: replace_g_def)

lemma sanitize_str_replicate_a: "sanitize_str (replicate n (CHR ''a'')) = replicate n (CHR ''a'')"
  by (simp add: sanitize_str_def replace_g_replicate)

text \<open>
  The event that \<^verbatim>\<open>recordEvent\<close> appends to the history carries the scrubbed details: no
  field named \<^verbatim>\<open>password\<close>, \<^verbatim>\<open>token\<close> or \<^verbatim>\<open>cookie\<close>, and no string longer than 203.
\<close>

lemma scrub_entries:
  "(k, v) \<in> set (scrubEventEntries entries) \<Longrightarrow>
   toLowerCase k \<notin> set piiKeys \<and> (\<forall>s. v = JStr s \<longrightarrow> length s \<le> 203)"
  by (induction entries rule: scrubEventEntries.induct) (auto split: if_splits jsval.splits)

lemma recorded_event_details_scrubbed:
  "ev_details (last (eventHistory (recordEvent nowEvent nowCheck nowBlock type details tm)))
     = JObj (scrubEventEntries details)
   \<and> (\<forall>(k, v) \<in> set (scrubEventEntries details).
         toLowerCase k \<notin> set piiKeys \<and> (\<forall>s. v = JStr s \<longrightarrow> length s \<le> 203))"
proof -
  have l: "last (tl (xs @ [e])) = e" if "xs \<noteq> []" for xs :: "event list" and e
    using that by (cases xs) auto
  have "99 < length (eventHistory tm) \<Longrightarrow> eventHistory tm \<noteq> []" by auto
  then show ?thesis
    using scrub_entries[of _ _ details]
    by (auto simp: recordEvent_def checkThreatLevel_def showWarning_def blockAccess_def Let_def l)
qed

text \<open>
  Claim C5. The sink is meant to receive the details without the fields named
  \<^verbatim>\<open>password\<close>, \<^verbatim>\<open>token\<close> or \<^verbatim>\<open>cookie\<close> and with long strings cut to 200 characters and an
  ellipsis. \<^verbatim>\<open>recordEvent\<close> stores the scrubbed details in the event, and passes the
  parameter \<^verbatim>\<open>details\<close> itself to \<^verbatim>\<open>logSecurityEvent\<close>: for a details object with a token, a
  cookie and a note of 201 characters, the sink receives all three fields with the note
  in full, while the event in the history has the note alone, cut to 200 characters.
\<close>

theorem recordEvent_logs_unscrubbed_details:
  "effects (recordEvent 0 0 0 ''LOGIN_FAILED''
      [(''token'', JStr ''abc''), (''cookie'', JStr ''sid=1''),
       (''note'', JStr (replicate 201 (CHR ''a'')))] new_ThreatMonitor)
     = [LogSink ''LOGIN_FAILED''
          [(''token'', JStr ''abc''), (''cookie'', JStr ''sid=1''),
           (''note'', JStr (replicate 201 (CHR ''a'')))]]
   \<and> map ev_details (eventHistory (recordEvent 0 0 0 ''LOGIN_FAILED''
      [(''token'', JStr ''abc''), (''cookie'', JStr ''sid=1''),
       (''note'', JStr (replicate 201 (CHR ''a'')))] new_ThreatMonitor))
     = [JObj [(''note'', JStr (replicate 200 (CHR ''a'') @ ''...''))]]"
proof -
  have low: "toLowerCase ''token'' = ''token''" "toLowerCase ''cookie'' = ''cookie''"
    "toLowerCase ''note'' = ''note''"
    by (simp_all add: toLowerCase_def toLowerChar_def)
  have s: "sanitize_str ''abc'' = ''abc''" "sanitize_str ''sid=1'' = ''sid=1''"
    by (simp_all add: sanitize_str_def replace_g_def)
  have r: "calculateRiskLevel ''LOGIN_FAILED'' = 1"
    by (simp add: calculateRiskLevel_def riskLevels_def)
  show ?thesis
    by (simp add: recordEvent_def checkThreatLevel_def riskScore_def new_ThreatMonitor_def
        logSecurityEvent_def low s r sanitize_str_replicate_a sensitiveDetails_def piiKeys_def Let_def)
qed


section \<open>Properties of GPXParser\<close>

text \<open>
  Claim C7, as amended. When the lower-cased name does not end in \<^verbatim>\<open>.gpx\<close>, \<^verbatim>\<open>parse\<close> throws
  \<^verbatim>\<open>INVALID_FILE_EXTENSION\<close> before any read. When it does and the size is above
  \<open>5 * 1024 * 1024\<close>, \<^verbatim>\<open>parse\<close> throws \<^verbatim>\<open>FILE_TOO_LARGE\<close> before any read. A file above
  the cap is rejected before any read whatever its name, with one of the two errors.
\<close>

theorem parse_validates_before_reading:
  "(\<not> endsWith (toLowerCase (file_name f)) ''.gpx'' \<longrightarrow>
      parse readAsText requestId f = ([], Inl INVALID_FILE_EXTENSION))
   \<and> (endsWith (toLowerCase (file_name f)) ''.gpx'' \<and> 5 * 1024 * 1024 < file_size f \<longrightarrow>
      parse readAsText requestId f = ([], Inl FILE_TOO_LARGE))
   \<and> (5 * 1024 * 1024 < file_size f \<longrightarrow>
      fst (parse readAsText requestId f) = []
      \<and> snd (parse readAsText requestId f) \<in> {Inl INVALID_FILE_EXTENSION, Inl FILE_TOO_LARGE})"
  by (simp add: parse_def)

theorem parse_validates_before_reading_witness:
  "\<not> endsWith (toLowerCase ''route.txt'') ''.gpx''
   \<and> parse (\<lambda>f. Some ''<gpx></gpx>'') ''req_1'' \<lparr> file_name = ''route.txt'', file_size = 100 \<rparr>
       = ([], Inl INVALID_FILE_EXTENSION)
   \<and> endsWith (toLowerCase ''Big.GPX'') ''.gpx'' \<and> (5 * 1024 * 1024 < (5242881::nat))
   \<and> parse (\<lambda>f. Some ''<gpx></gpx>'') ''req_1'' \<lparr> file_name = ''Big.GPX'', file_size = 5242881 \<rparr>
       = ([], Inl FILE_TOO_LARGE)"
proof -
  have a: "\<not> endsWith (toLowerCase ''route.txt'') ''.gpx''"
    by (simp add: endsWith_def toLowerCase_def toLowerChar_def)
  have b: "endsWith (toLowerCase ''Big.GPX'') ''.gpx''"
    by (simp add: endsWith_def toLowerCase_def toLowerChar_def)
  show ?thesis
    using parse_validates_before_reading[of "\<lparr> file_name = ''route.txt'', file_size = 100 \<rparr>" "\<lambda>f. Some ''<gpx></gpx>''" "''req_1''"]
      parse_validates_before_reading[of "\<lparr> file_name = ''Big.GPX'', file_size = 5242881 \<rparr>" "\<lambda>f. Some ''<gpx></gpx>''" "''req_1''"]
      a b by simp
qed

text \<open>
  Claim C7 as stated fails twice. \<^verbatim>\<open>ROUTE.GPX\<close> does not end in \<^verbatim>\<open>.gpx\<close>, and \<^verbatim>\<open>parse\<close> reads
  it and posts the request, since the test is on the lower-cased name. A file
  \<^verbatim>\<open>route.txt\<close> of \<open>5 * 1024 * 1024 + 1\<close> bytes is rejected with \<^verbatim>\<open>INVALID_FILE_EXTENSION\<close>,
  not \<^verbatim>\<open>FILE_TOO_LARGE\<close>, since the extension is tested first.
\<close>

theorem parse_letter_case_and_check_order:
  "\<not> endsWith ''ROUTE.GPX'' ''.gpx''
   \<and> parse (\<lambda>f. Some ''<gpx></gpx>'') ''req_1'' \<lparr> file_name = ''ROUTE.GPX'', file_size = 100 \<rparr>
       = ([ReadAsText, PostParseRequest ''req_1'' ''<gpx></gpx>''], Inr ''req_1'')
   \<and> 5 * 1024 * 1024 < (5242881::nat)
   \<and> parse (\<lambda>f. Some ''<gpx></gpx>'') ''req_1'' \<lparr> file_name = ''route.txt'', file_size = 5242881 \<rparr>
       = ([], Inl INVALID_FILE_EXTENSION)"
  by (simp add: parse_def endsWith_def toLowerCase_def toLowerChar_def)


section \<open>Properties of SecureStorage and FallbackStorage\<close>

text \<open>Obfuscation is undone by its inverse, and keeps a string non-empty.\<close>

lemma obfuscate_inverse: "deobfuscate (obfuscate str) = str"
  by (induction str) (simp_all add: obfuscate_def deobfuscate_def)

lemma obfuscate_empty: "obfuscate str = [] \<longleftrightarrow> str = []"
  by (simp add: obfuscate_def)

text \<open>
  The retry of \<^verbatim>\<open>getItem\<close>: in a state where the envelope cannot be decrypted, removing the
  stored key and running \<^verbatim>\<open>_initKey\<close> succeeds and leads to such a state again.
\<close>

lemma secure_name_not_keyName: "''secure_'' @ key \<noteq> keyName"
  by (simp add: keyName_def)

lemma undecryptable_step:
  assumes "undecryptable P key st"
  shows "snd (initKey P (st\<lparr> localStorage := (localStorage st)(keyName := None) \<rparr>)) = None
         \<and> undecryptable P key (fst (initKey P (st\<lparr> localStorage := (localStorage st)(keyName := None) \<rparr>)))"
  using assms secure_name_not_keyName[of key]
  by (auto simp: undecryptable_def initKey_def deriveNewKey_def Let_def
      split: option.splits)

lemma getItem_undecryptable_aux:
  assumes "SecureStorage_getItem P key st = Some y"
  shows "\<not> undecryptable P key st"
proof -
  have "(\<lambda>x y. \<not> undecryptable (fst (fst x)) (snd (fst x)) (snd x)) ((P, key), st) y"
  proof (rule SecureStorage_getItem.raw_induct[OF _ assms])
    fix getItem and P :: "('a, 'b) platform" and key st y
    assume IH: "\<And>P key st y. getItem P key st = Some y \<Longrightarrow>
                 \<not> undecryptable (fst (fst ((P, key), st))) (snd (fst ((P, key), st))) (snd ((P, key), st))"
      and body: "(if \<not> keyPromise st then Some (st, Inl SECURE_STORAGE_INIT_FAILED)
      else case localStorage st (''secure_'' @ key) of
             None \<Rightarrow> Some (st, Inr None)
           | Some stored \<Rightarrow>
               (if stored = [] then Some (st, Inr None)
                else case openValue P (encryptionKey st) stored of
                       Inr v \<Rightarrow> Some (st, Inr (Some v))
                     | Inl OtherError \<Rightarrow> Some (st, Inr None)
                     | Inl OperationError \<Rightarrow>
                         (let r = initKey P (st\<lparr> localStorage := (localStorage st)(keyName := None) \<rparr>)
                          in case snd r of
                               Some e \<Rightarrow> Some (fst r, Inl e)
                             | None \<Rightarrow> getItem P key (fst r)))) = Some y"
    show "\<not> undecryptable (fst (fst ((P, key), st))) (snd (fst ((P, key), st))) (snd ((P, key), st))"
    proof
      assume "undecryptable (fst (fst ((P, key), st))) (snd (fst ((P, key), st))) (snd ((P, key), st))"
      then have u: "undecryptable P key st" by simp
      let ?st' = "fst (initKey P (st\<lparr> localStorage := (localStorage st)(keyName := None) \<rparr>))"
      from undecryptable_step[OF u]
      have ok: "snd (initKey P (st\<lparr> localStorage := (localStorage st)(keyName := None) \<rparr>)) = None"
        and u': "undecryptable P key ?st'"
        by simp_all
      from u body ok have "getItem P key ?st' = Some y"
        by (auto simp: undecryptable_def Let_def split: option.splits)
      from IH[OF this] u' show False by simp
    qed
  qed
  then show ?thesis by simp
qed

text \<open>
  Claim C3. \<^verbatim>\<open>getItem\<close> is meant to retry once after an \<^verbatim>\<open>OperationError\<close> and to resolve to
  \<^verbatim>\<open>null\<close> when the retry fails too. The retry is the call \<^verbatim>\<open>this.getItem(key)\<close> inside the
  \<^verbatim>\<open>catch\<close> block, with no count: when neither the current key nor the key derived from
  the fingerprint decrypts the stored envelope, every call removes the key, derives it
  again and calls itself, and the promise never settles.
\<close>

theorem getItem_retries_without_bound: "undecryptable P key st \<Longrightarrow> SecureStorage_getItem P key st = None"
  using getItem_undecryptable_aux[of P key st] by (cases "SecureStorage_getItem P key st") auto

text \<open>
  On the sample platform: the envelope opens under key 5, the store holds key 9 and the
  fingerprint derives key 7.
\<close>

lemma demo_stale: "demo_stale_store =
    \<lparr> localStorage = [keyName \<mapsto> [9], ''secure_route'' \<mapsto> demo_foreign_envelope],
      encryptionKey = Some 9, keyPromise = True \<rparr>"
  by (simp add: demo_stale_store_def new_SecureStorage_def initKey_def deriveNewKey_def
      demo_platform_def Let_def keyName_def)

theorem getItem_retries_without_bound_witness:
  "openValue demo_platform (Some 5) demo_foreign_envelope = Inr demo_value
   \<and> undecryptable demo_platform ''route'' demo_stale_store
   \<and> SecureStorage_getItem demo_platform ''route'' demo_stale_store = (None :: (8 word SecureStorage \<times> (storage_error + bytes option)) option)"
proof -
  have a: "openValue demo_platform (Some 5) demo_foreign_envelope = Inr demo_value"
    by (simp add: openValue_def base64ToArrayBuffer_def demo_platform_def demo_value_def
        demo_foreign_envelope_def)
  have b: "undecryptable demo_platform ''route'' demo_stale_store"
    by (simp add: undecryptable_def demo_stale openValue_def base64ToArrayBuffer_def
        demo_platform_def demo_foreign_envelope_def keyName_def)
  from getItem_retries_without_bound[OF b] a b show ?thesis by simp
qed

text \<open>
  Claim C4 says that \<^verbatim>\<open>getItem\<close> after \<^verbatim>\<open>setItem\<close> gives the value back in both stores. It
  cannot hold of \<^verbatim>\<open>SecureStorage.setItem\<close> as the source has it: the envelope's object literal
  lacks the property name \<^verbatim>\<open>data\<close>, so the script does not load and nothing is stored. The
  lemmas below are about the parts of the file that are well formed on their own: the
  round trip through the obfuscated text of \<^verbatim>\<open>FallbackStorage\<close>, and \<^verbatim>\<open>getItem\<close> for a name
  with no stored entry.
\<close>

lemma fallback_round_trip:
  assumes laws: "platform_laws P" and ser: "json_serializable P v"
  shows "FallbackStorage_getItem P key (FallbackStorage_setItem P key v ls) = Some v"
proof -
  from ser obtain jtext where t: "json_stringify P v = Some jtext" "json_parse P jtext = Some v"
    by (auto simp: json_serializable_def split: option.splits)
  from laws t(1) obtain uri binary where u: "jtext \<noteq> []" "encodeURIComponent P jtext = Some uri"
      "btoa P (unescape P uri) = Some binary"
      "decodeURIComponent P (escape P (unescape P uri)) = Some jtext"
    unfolding platform_laws_def by blast
  from laws have z: "escape P [] = []" "decodeURIComponent P [] = Some []"
    unfolding platform_laws_def by blast+
  from u(1,4) z have ne: "unescape P uri \<noteq> []" by auto
  from laws u(3) ne have a: "atob P binary = Some (unescape P uri)" "binary \<noteq> []"
    unfolding platform_laws_def by blast+
  have enc: "encodeFallback P v = Some (obfuscate binary)"
    by (simp add: encodeFallback_def t u)
  show ?thesis
    by (simp add: FallbackStorage_setItem_def FallbackStorage_getItem_def enc obfuscate_empty
        obfuscate_inverse a u(4) t(2))
qed

lemma getItem_absent:
  "keyPromise st \<Longrightarrow> localStorage st (''secure_'' @ key) = None \<Longrightarrow>
   SecureStorage_getItem P key st = Some (st, Inr None)"
  by (subst SecureStorage_getItem.simps) simp

lemma getItem_fallback_absent:
  "ls (''fallback_'' @ key) = None \<Longrightarrow> FallbackStorage_getItem P key ls = None"
  by (simp add: FallbackStorage_getItem_def)

text \<open>The sample platform meets the requirements, and the sample value is serializable.\<close>

lemma demo_laws: "platform_laws demo_platform"
  unfolding platform_laws_def demo_platform_def by simp

lemma demo_serializable: "json_serializable demo_platform demo_value"
  by (simp add: json_serializable_def demo_platform_def demo_value_def)

end
